theory Spec2Isabelle
  imports Main "HOL-Library.AList"
begin

section \<open>Schema normalization of realm-js: the data model\<close>

text \<open>
  The development embeds the schema normalizer (\<^verbatim>\<open>normalizeObjectSchema\<close> and the
  functions it calls). Every function keeps its source name. Record fields carry a
  prefix, because the source reuses field names across its types: \<open>ps_\<close> for
  \<^verbatim>\<open>PropertySchema\<close>, \<open>cp_\<close> for \<^verbatim>\<open>CanonicalPropertySchema\<close>, \<open>os_\<close> for
  \<^verbatim>\<open>ObjectSchema\<close> and \<open>co_\<close> for \<^verbatim>\<open>CanonicalObjectSchema\<close>.
  A field that may be absent (\<^verbatim>\<open>undefined\<close>) is an \<open>option\<close>.
  Strings are lists of characters; only \<^verbatim>\<open>length\<close>, \<^verbatim>\<open>substring\<close>,
  \<^verbatim>\<open>endsWith\<close> and equality are used on them.
\<close>

subsection \<open>Errors\<close>

text \<open>
  The error classes are declared outside the normalizer. An error value keeps the
  constructor's arguments: the message, and the object and property names that
  \<^verbatim>\<open>objectError\<close> and \<^verbatim>\<open>propError\<close> pass along. A call \<^verbatim>\<open>assert(c, e)\<close> raises
  \<open>e\<close> when \<open>c\<close> is falsy and is written as a conditional that returns \<open>Inl e\<close>.
\<close>

datatype error =
    SchemaParseError string
  | ObjectSchemaParseError string string
  | PropertySchemaParseError string string string
  | Error string

subsection \<open>Raw and canonical schemas\<close>

text \<open>A default value is carried through and never inspected.\<close>

datatype js_value = JsNull | JsBool bool | JsNumber int | JsString string

record property_schema =
  ps_type :: string
  ps_objectType :: "string option"
  ps_property :: "string option"
  ps_optional :: "bool option"
  ps_indexed :: "bool option"
  ps_mapTo :: "string option"
  ps_default :: "js_value option"

datatype property_def = Shorthand string | Explicit property_schema

record 'a property_info =
  objectName :: string
  propertyName :: string
  propertySchema :: 'a
  isPrimaryKey :: "bool option"

record canonical_property_schema =
  cp_name :: string
  cp_type :: string
  cp_optional :: bool
  cp_indexed :: bool
  cp_mapTo :: string
  cp_objectType :: "string option"
  cp_property :: "string option"
  cp_default :: "js_value option"

text \<open>
  A properties object is the list of its own keys with their values, in the order in
  which \<^verbatim>\<open>for ... in\<close> visits them (see the section on ordinary objects below). The
  deprecated array form lists the properties with their \<^verbatim>\<open>name\<close> split off. The
  \<^verbatim>\<open>properties\<close> of a canonical object schema are the own keys of the object that the
  normalizer builds.
\<close>

datatype properties_types =
    PropertiesObject "(string \<times> property_def) list"
  | PropertiesArray "(string \<times> property_schema) list"

record object_schema =
  os_name :: string
  os_primaryKey :: "string option"
  os_asymmetric :: "bool option"
  os_embedded :: "bool option"
  os_properties :: properties_types

record realm_object_constructor =
  ctor_name :: string
  ctor_schema :: "object_schema option"

datatype schema_arg = Constructor realm_object_constructor | ObjectSchema object_schema

record canonical_object_schema =
  co_name :: string
  co_primaryKey :: "string option"
  co_asymmetric :: bool
  co_embedded :: bool
  co_properties :: "(string \<times> canonical_property_schema) list"
  co_ctor :: "realm_object_constructor option"

section \<open>String and truthiness helpers of the host language\<close>

text \<open>
  \<^verbatim>\<open>s.substring(a, b)\<close>: both indices are clamped to the string and swapped when
  out of order; \<^verbatim>\<open>s.substring(a)\<close> runs to the end.
\<close>

definition substring :: "string \<Rightarrow> int \<Rightarrow> int \<Rightarrow> string" where
  "substring s a b =
     (let n = int (length s);
          a' = max 0 (min a n);
          b' = max 0 (min b n);
          lo = min a' b';
          hi = max a' b'
      in take (nat (hi - lo)) (drop (nat lo) s))"

definition substring1 :: "string \<Rightarrow> int \<Rightarrow> string" where
  "substring1 s a = substring s a (int (length s))"

definition endsWith :: "string \<Rightarrow> string \<Rightarrow> bool" where
  "endsWith s t = (length t \<le> length s \<and> drop (length s - length t) s = t)"

text \<open>\<^verbatim>\<open>!!b\<close> on an optional boolean, and on an optional string.\<close>

definition toBoolean :: "bool option \<Rightarrow> bool" where
  "toBoolean b = (b = Some True)"

definition truthy :: "string option \<Rightarrow> bool" where
  "truthy s = (case s of None \<Rightarrow> False | Some t \<Rightarrow> t \<noteq> [])"

definition quoted :: "string \<Rightarrow> string" where
  "quoted s = [CHR 0x27] @ s @ [CHR 0x27]"

fun join :: "string \<Rightarrow> string list \<Rightarrow> string" where
  "join sep [] = []"
| "join sep [x] = x"
| "join sep (x # y # ys) = x @ sep @ join sep (y # ys)"

section \<open>Ordinary objects of the host language\<close>

text \<open>
  An object that maps string keys to values is the list of its own enumerable keys with
  their values, each key once, in the order in which \<^verbatim>\<open>for ... in\<close> visits them: first
  the keys that are array indices (the decimal numerals of \<open>0\<close> to \<open>4294967294\<close>, without
  leading zeros) in ascending numeric order, then the other keys in the order of their
  creation. The prototype is not part of the list. A properties object given to the
  normalizer is an object literal or parsed JSON: all its keys are own and enumerable.
\<close>

definition isDigit :: "char \<Rightarrow> bool" where
  "isDigit c = (c \<in> set ''0123456789'')"

definition digitValue :: "char \<Rightarrow> nat" where
  "digitValue c = length (takeWhile (\<lambda>d. d \<noteq> c) ''0123456789'')"

definition indexValue :: "string \<Rightarrow> nat" where
  "indexValue k = foldl (\<lambda>n c. 10 * n + digitValue c) 0 k"

definition isArrayIndex :: "string \<Rightarrow> bool" where
  "isArrayIndex k =
     (k \<noteq> [] \<and> list_all isDigit k \<and> (if hd k = CHR ''0'' then k = ''0'' else True) \<and>
      indexValue k \<le> 4294967294)"

text \<open>A new array index goes after the array indices that are smaller.\<close>

fun insertIndex :: "string \<Rightarrow> 'v \<Rightarrow> (string \<times> 'v) list \<Rightarrow> (string \<times> 'v) list" where
  "insertIndex k v [] = [(k, v)]"
| "insertIndex k v ((k', v') # rest) =
     (if isArrayIndex k' \<and> indexValue k' < indexValue k
      then (k', v') # insertIndex k v rest
      else (k, v) # (k', v') # rest)"

text \<open>
  A list of keys is in the order of enumeration when an array index stands only after
  smaller array indices.
\<close>

definition keyBefore :: "string \<Rightarrow> string \<Rightarrow> bool" where
  "keyBefore k k' =
     (if isArrayIndex k' then isArrayIndex k \<and> indexValue k < indexValue k' else True)"

definition enumerationOrder :: "string list \<Rightarrow> bool" where
  "enumerationOrder ks = sorted_wrt keyBefore ks"

text \<open>
  \<^verbatim>\<open>defineProperty\<close> creates the own key \<open>k\<close> with the value \<open>v\<close>, or overwrites its
  value where the key stands; this is what \<^verbatim>\<open>Object.fromEntries\<close> does for each entry.
  \<^verbatim>\<open>assignProperty\<close> is the assignment \<^verbatim>\<open>obj[k] = v\<close> of an object \<open>v\<close> on an object
  that was created by \<^verbatim>\<open>{}\<close>. It does the same for every key but \<open>__proto__\<close>: that key
  is the accessor inherited from \<^verbatim>\<open>Object.prototype\<close>, so the assignment makes \<open>v\<close> the
  prototype of the object and creates no own key.
\<close>

definition defineProperty :: "string \<Rightarrow> 'v \<Rightarrow> (string \<times> 'v) list \<Rightarrow> (string \<times> 'v) list" where
  "defineProperty k v obj =
     (if k \<in> set (map fst obj) then AList.update k v obj
      else if isArrayIndex k then insertIndex k v obj
      else obj @ [(k, v)])"

definition assignProperty :: "string \<Rightarrow> 'v \<Rightarrow> (string \<times> 'v) list \<Rightarrow> (string \<times> 'v) list" where
  "assignProperty k v obj = (if k = ''__proto__'' then obj else defineProperty k v obj)"

section \<open>The type classifier\<close>

definition PRIMITIVE_TYPES :: "string list" where
  "PRIMITIVE_TYPES =
     [''bool'', ''int'', ''float'', ''double'', ''decimal128'', ''objectId'',
      ''string'', ''data'', ''date'', ''mixed'', ''uuid'']"

definition COLLECTION_TYPES :: "string list" where
  "COLLECTION_TYPES = [''list'', ''dictionary'', ''set'']"

definition COLLECTION_SHORTHAND_TO_NAME :: "(string \<times> string) list" where
  "COLLECTION_SHORTHAND_TO_NAME = [(''[]'', ''list''), (''{}'', ''dictionary''), (''<>'', ''set'')]"

definition isPrimitive :: "string option \<Rightarrow> bool" where
  "isPrimitive t = (case t of None \<Rightarrow> False | Some s \<Rightarrow> s \<in> set PRIMITIVE_TYPES)"

definition isCollection :: "string option \<Rightarrow> bool" where
  "isCollection t = (case t of None \<Rightarrow> False | Some s \<Rightarrow> s \<in> set COLLECTION_TYPES)"

definition isUserDefined :: "string option \<Rightarrow> bool" where
  "isUserDefined t =
     (truthy t \<and> \<not> (isPrimitive t \<or> isCollection t \<or> t = Some ''object'' \<or> t = Some ''linkingObjects''))"

section \<open>Implicit optionality and shorthand detection\<close>

definition optionalIsImplicitlyTrue :: "string \<Rightarrow> string option \<Rightarrow> bool" where
  "optionalIsImplicitlyTrue t objectType =
     (t = ''mixed'' \<or> objectType = Some ''mixed'' \<or> t = ''object'' \<or>
      (t = ''dictionary'' \<and> isUserDefined objectType))"

definition optionalIsImplicitlyFalse :: "string \<Rightarrow> string option \<Rightarrow> bool" where
  "optionalIsImplicitlyFalse t objectType =
     ((t = ''list'' \<or> t = ''set'' \<or> t = ''linkingObjects'') \<and> isUserDefined objectType)"

text \<open>
  \<^verbatim>\<open>hasCollectionSuffix\<close> looks the last two characters up in the table; a string
  shorter than two characters is looked up whole, since \<^verbatim>\<open>substring\<close> clamps the
  negative index.
\<close>

definition hasCollectionSuffix :: "string \<Rightarrow> bool" where
  "hasCollectionSuffix input =
     (let e = substring1 input (int (length input) - 2)
      in truthy (map_of COLLECTION_SHORTHAND_TO_NAME e))"

definition propError :: "'a property_info \<Rightarrow> string \<Rightarrow> error" where
  "propError info message = PropertySchemaParseError message (objectName info) (propertyName info)"

definition objectError :: "string \<Rightarrow> string \<Rightarrow> error" where
  "objectError objName message = ObjectSchemaParseError message objName"

text \<open>
  \<^verbatim>\<open>assertNotUsingShorthand\<close> collects the shorthand markers found at the end of the
  input and raises when there is one.
\<close>

definition assertNotUsingShorthand :: "string option \<Rightarrow> 'a property_info \<Rightarrow> error + unit" where
  "assertNotUsingShorthand input info =
     (let (shorthands, input1) =
            (case input of
               None \<Rightarrow> ([], input)
             | Some s \<Rightarrow>
                 if truthy input \<and> hasCollectionSuffix s
                 then ([substring1 s (int (length s) - 2)],
                       Some (substring s 0 (int (length s) - 2)))
                 else ([], input));
          shorthands2 =
            (case input1 of
               None \<Rightarrow> shorthands
             | Some s \<Rightarrow> if endsWith s ''?'' then shorthands @ [''?''] else shorthands)
      in if shorthands2 = [] then Inr ()
         else Inl (propError info
                (''Cannot use shorthand '' @ quoted (join ([CHR 0x27] @ '' and '' @ [CHR 0x27]) shorthands2) @
                 '' in 'type' or 'objectType' when defining property objects.'')))"

section \<open>Normalizing a property in shorthand notation\<close>

text \<open>
  \<^verbatim>\<open>normalizePropertySchemaShorthand\<close> runs four blocks one after the other, each on
  the local variables the previous one left: the collection suffix, the optional marker,
  the classification of the element type, and the implicit optionality. Each block is a
  definition that returns the variables it assigns, or the error it raises. The local
  \<^verbatim>\<open>type\<close> starts as the empty string and \<^verbatim>\<open>optional\<close> as undefined. In the first
  block the table lookup cannot miss, because \<^verbatim>\<open>hasCollectionSuffix\<close> has just found
  the same key.
\<close>

definition shorthandCollectionSuffix :: "string property_info \<Rightarrow> string \<Rightarrow> error + (string \<times> string)" where
  "shorthandCollectionSuffix info str =
     (if hasCollectionSuffix str then
        (let suffix = substring1 str (int (length str) - 2);
             t = (case map_of COLLECTION_SHORTHAND_TO_NAME suffix of Some n \<Rightarrow> n | None \<Rightarrow> []);
             rest = substring str 0 (int (length str) - 2)
         in if \<not> length rest > 0
            then Inl (propError info
                   (''The element type must be specified (Example: 'int'' @ suffix @ ''')''))
            else if hasCollectionSuffix rest
            then Inl (propError info ''Nested collections are not supported.'')
            else Inr (t, rest))
      else Inr ([], str))"

definition shorthandOptionalMarker :: "string property_info \<Rightarrow> string \<Rightarrow> error + (bool option \<times> string)" where
  "shorthandOptionalMarker info str =
     (if endsWith str ''?'' then
        (let rest = substring str 0 (int (length str) - 1)
         in if \<not> length rest > 0
            then Inl (propError info
                   ''The type must be specified. (Examples: 'int?' and 'int?[]')'')
            else if hasCollectionSuffix rest
            then Inl (propError info
                   ''Collections cannot be optional. To allow elements of the collection to be optional, use '?' after the element type. (Examples: 'int?[]', 'int?{}', and 'int?<>')'')
            else Inr (Some True, rest))
      else Inr (None, str))"

definition shorthandClassify :: "string property_info \<Rightarrow> string \<Rightarrow> string \<Rightarrow> error + (string \<times> string option)" where
  "shorthandClassify info t str =
     (if isPrimitive (Some str) then
        (if isCollection (Some t) then Inr (t, Some str)
         else Inr (str, None))
      else if isCollection (Some str) then
        Inl (propError info
          (''Cannot use the collection name '' @ str @
           ''. (Examples: 'int[]' (list), 'int{}' (dictionary), and 'int<>' (set))''))
      else if str = ''object'' then
        Inl (propError info
          ''To define a relationship, use either 'MyObjectType' or { type: 'object', objectType: 'MyObjectType' }'')
      else if str = ''linkingObjects'' then
        Inl (propError info
          ''To define an inverse relationship, use { type: 'linkingObjects', objectType: 'MyObjectType', property: 'myObjectTypesProperty' }'')
      else Inr (if \<not> isCollection (Some t) then ''object'' else t, Some str))"

definition shorthandImplicitOptional :: "string property_info \<Rightarrow> string \<Rightarrow> string option \<Rightarrow> bool option \<Rightarrow> error + bool option" where
  "shorthandImplicitOptional info t objectType optional =
     (if optionalIsImplicitlyTrue t objectType then Inr (Some True)
      else if optionalIsImplicitlyFalse t objectType then
        (if toBoolean optional
         then Inl (propError info
                ''User-defined types in lists and sets are always non-optional and cannot be made optional. Remove '?' or change the type.'')
         else Inr (Some False))
      else Inr optional)"

definition normalizePropertySchemaShorthand :: "string property_info \<Rightarrow> error + canonical_property_schema" where
  "normalizePropertySchemaShorthand info =
     (if \<not> length (propertySchema info) > 0
      then Inl (propError info ''The type must be specified.'')
      else
        (case shorthandCollectionSuffix info (propertySchema info) of
           Inl e \<Rightarrow> Inl e
         | Inr (t, rest) \<Rightarrow>
             (case shorthandOptionalMarker info rest of
                Inl e \<Rightarrow> Inl e
              | Inr (optional, element) \<Rightarrow>
                  (case shorthandClassify info t element of
                     Inl e \<Rightarrow> Inl e
                   | Inr (t', objectType) \<Rightarrow>
                       (case shorthandImplicitOptional info t' objectType optional of
                          Inl e \<Rightarrow> Inl e
                        | Inr optional' \<Rightarrow>
                            Inr \<lparr> cp_name = propertyName info,
                                  cp_type = t',
                                  cp_optional = toBoolean optional',
                                  cp_indexed = toBoolean (isPrimaryKey info),
                                  cp_mapTo = propertyName info,
                                  cp_objectType = objectType,
                                  cp_property = None,
                                  cp_default = None \<rparr>)))))"

section \<open>Normalizing a property in object notation\<close>

text \<open>The checks on \<^verbatim>\<open>objectType\<close> and \<^verbatim>\<open>property\<close> by category of the type.\<close>

definition objectCategoryChecks :: "property_schema property_info \<Rightarrow> error + unit" where
  "objectCategoryChecks info =
     (let t = ps_type (propertySchema info);
          objectType = ps_objectType (propertySchema info);
          property = ps_property (propertySchema info)
      in if isPrimitive (Some t) then
           (if objectType = None then Inr ()
            else Inl (propError info
                   ('''objectType' cannot be defined when 'type' is '' @ quoted t @ ''.'')))
         else if isCollection (Some t) then
           (if isPrimitive objectType \<or> isUserDefined objectType then Inr ()
            else Inl (propError info
                   (''A '' @ t @
                    '' must contain only primitive or user-defined types specified through 'objectType'.'')))
         else if t = ''object'' then
           (if isUserDefined objectType then Inr ()
            else Inl (propError info
                   ''A user-defined type must be specified through 'objectType'.''))
         else if t = ''linkingObjects'' then
           (if \<not> isUserDefined objectType
            then Inl (propError info
                   ''A user-defined type must be specified through 'objectType'.'')
            else if \<not> truthy property
            then Inl (propError info
                   ''The linking object's property name must be specified through 'property'.'')
            else Inr ())
         else
           Inl (propError info
             (''If you meant to define a relationship, use { type: 'object', objectType: '' @
              quoted t @ '' } or { type: 'linkingObjects', objectType: '' @ quoted t @
              '', property: 'The '' @ t @ '' property' }'')))"

definition objectImplicitOptional :: "property_schema property_info \<Rightarrow> error + bool option" where
  "objectImplicitOptional info =
     (let t = ps_type (propertySchema info);
          objectType = ps_objectType (propertySchema info);
          optional = ps_optional (propertySchema info)
      in if optionalIsImplicitlyTrue t objectType then
           (let displayed =
                  (if t = ''mixed'' \<or> objectType = Some ''mixed''
                   then '''mixed' types''
                   else ''User-defined types as standalone objects and in dictionaries'')
            in if optional \<noteq> Some False then Inr (Some True)
               else Inl (propError info
                      (displayed @ '' are always optional and cannot be made non-optional.'')))
         else if optionalIsImplicitlyFalse t objectType then
           (if optional \<noteq> Some True then Inr (Some False)
            else Inl (propError info
                   ''User-defined types in lists and sets are always non-optional and cannot be made optional.''))
         else Inr optional)"

definition normalizePropertySchemaObject :: "property_schema property_info \<Rightarrow> error + canonical_property_schema" where
  "normalizePropertySchemaObject info =
     (let t = ps_type (propertySchema info);
          objectType = ps_objectType (propertySchema info);
          property = ps_property (propertySchema info);
          defaultValue = ps_default (propertySchema info);
          indexed = ps_indexed (propertySchema info)
      in if \<not> length t > 0 then Inl (propError info '''type' must be specified.'')
         else
           (case assertNotUsingShorthand (Some t) info of
              Inl e \<Rightarrow> Inl e
            | Inr _ \<Rightarrow>
                (case assertNotUsingShorthand objectType info of
                   Inl e \<Rightarrow> Inl e
                 | Inr _ \<Rightarrow>
                     (case objectCategoryChecks info of
                        Inl e \<Rightarrow> Inl e
                      | Inr _ \<Rightarrow>
                          (if t \<noteq> ''linkingObjects'' \<and> property \<noteq> None
                           then Inl (propError info
                                  '''property' can only be specified if 'type' is 'linkingObjects'.'')
                           else
                             (case objectImplicitOptional info of
                                Inl e \<Rightarrow> Inl e
                              | Inr optional \<Rightarrow>
                                  (if toBoolean (isPrimaryKey info) \<and> indexed = Some False
                                   then Inl (propError info ''Primary keys must always be indexed.'')
                                   else
                                     Inr \<lparr> cp_name = propertyName info,
                                           cp_type = t,
                                           cp_optional = toBoolean optional,
                                           cp_indexed =
                                             toBoolean (if toBoolean (isPrimaryKey info)
                                                        then Some True else indexed),
                                           cp_mapTo =
                                             (case ps_mapTo (propertySchema info) of
                                                None \<Rightarrow> propertyName info
                                              | Some m \<Rightarrow>
                                                  if m \<noteq> [] then m else propertyName info),
                                           cp_objectType = objectType,
                                           cp_property = property,
                                           cp_default = defaultValue \<rparr>)))))))"

section \<open>Normalizing properties and objects\<close>

text \<open>
  \<^verbatim>\<open>normalizePropertySchema\<close> chooses the notation by the run-time type of the
  definition and hands over the same information record, retyped.
\<close>

definition normalizePropertySchema :: "property_def property_info \<Rightarrow> error + canonical_property_schema" where
  "normalizePropertySchema info =
     (case propertySchema info of
        Shorthand s \<Rightarrow>
          normalizePropertySchemaShorthand
            \<lparr> objectName = objectName info, propertyName = propertyName info,
              propertySchema = s, isPrimaryKey = isPrimaryKey info \<rparr>
      | Explicit p \<Rightarrow>
          normalizePropertySchemaObject
            \<lparr> objectName = objectName info, propertyName = propertyName info,
              propertySchema = p, isPrimaryKey = isPrimaryKey info \<rparr>)"

text \<open>
  The loop of \<^verbatim>\<open>normalizePropertySchemas\<close>: each key is normalized in turn and
  assigned into the result object \<^verbatim>\<open>normalizedSchemas\<close>, which starts as \<^verbatim>\<open>{}\<close>; the
  first error ends the loop.
\<close>

fun normalizePropertySchemasLoop ::
  "string \<Rightarrow> string option \<Rightarrow> (string \<times> property_def) list \<Rightarrow>
   (string \<times> canonical_property_schema) list \<Rightarrow> error + (string \<times> canonical_property_schema) list" where
  "normalizePropertySchemasLoop objName primaryKey [] normalizedSchemas = Inr normalizedSchemas"
| "normalizePropertySchemasLoop objName primaryKey ((propName, p) # rest) normalizedSchemas =
     (case normalizePropertySchema
             \<lparr> objectName = objName, propertyName = propName, propertySchema = p,
               isPrimaryKey = Some (primaryKey = Some propName) \<rparr> of
        Inl e \<Rightarrow> Inl e
      | Inr c \<Rightarrow>
          normalizePropertySchemasLoop objName primaryKey rest
            (assignProperty propName c normalizedSchemas))"

definition normalizePropertySchemas ::
  "string \<Rightarrow> (string \<times> property_def) list \<Rightarrow> string option \<Rightarrow>
   error + (string \<times> canonical_property_schema) list" where
  "normalizePropertySchemas objName propertiesSchemas primaryKey =
     normalizePropertySchemasLoop objName primaryKey propertiesSchemas []"

text \<open>
  \<^verbatim>\<open>Object.fromEntries\<close> defines the entries one after the other on a new object: a
  later entry overwrites an earlier one of the same key, and \<open>__proto__\<close> is a key like
  any other.
\<close>

definition fromEntries :: "(string \<times> 'v) list \<Rightarrow> (string \<times> 'v) list" where
  "fromEntries entries = foldl (\<lambda>obj (k, v). defineProperty k v obj) [] entries"

text \<open>
  \<^verbatim>\<open>normalizeObjectSchema\<close>. The feature flag \<^verbatim>\<open>flags.ALLOW_VALUES_ARRAYS\<close> is
  the first argument. The function calls itself on the static schema of a constructor
  and on the rewritten array form; neither call can repeat.
\<close>

function normalizeObjectSchema :: "bool \<Rightarrow> schema_arg \<Rightarrow> error + canonical_object_schema" where
  "normalizeObjectSchema ALLOW_VALUES_ARRAYS (Constructor arg) =
     (case ctor_schema arg of
        None \<Rightarrow> Inl (SchemaParseError ''A static schema must be specified on this class.'')
      | Some s \<Rightarrow>
          (case normalizeObjectSchema ALLOW_VALUES_ARRAYS (ObjectSchema s) of
             Inl e \<Rightarrow> Inl e
           | Inr objectSchema \<Rightarrow> Inr (objectSchema \<lparr> co_ctor := Some arg \<rparr>)))"
| "normalizeObjectSchema ALLOW_VALUES_ARRAYS (ObjectSchema arg) =
     (case os_properties arg of
        PropertiesArray ps \<Rightarrow>
          if ALLOW_VALUES_ARRAYS
          then normalizeObjectSchema ALLOW_VALUES_ARRAYS
                 (ObjectSchema (arg \<lparr> os_properties :=
                    PropertiesObject (fromEntries (map (\<lambda>(n, rest). (n, Explicit rest)) ps)) \<rparr>))
          else Inl (Error ''Array of properties are no longer supported. Use an object instead.'')
      | PropertiesObject properties \<Rightarrow>
          (let name = os_name arg;
               primaryKey = os_primaryKey arg;
               asymmetric = os_asymmetric arg;
               embedded = os_embedded arg;
               primaryKeyFieldIsMissing =
                 (truthy primaryKey \<and>
                  \<not> (case primaryKey of None \<Rightarrow> False | Some k \<Rightarrow> k \<in> set (map fst properties)))
           in if \<not> length name > 0 then Inl (objectError [] '''name' must be specified.'')
              else if primaryKeyFieldIsMissing
              then Inl (objectError name
                     (quoted (case primaryKey of None \<Rightarrow> ''undefined'' | Some k \<Rightarrow> k) @
                      '' is set as the primary key field but was not found in 'properties'.''))
              else if \<not> (\<not> toBoolean asymmetric \<or> \<not> toBoolean embedded)
              then Inl (objectError name ''Cannot be both asymmetric and embedded.'')
              else
                (case normalizePropertySchemas name properties primaryKey of
                   Inl e \<Rightarrow> Inl e
                 | Inr props \<Rightarrow>
                     Inr \<lparr> co_name = name,
                           co_primaryKey = primaryKey,
                           co_asymmetric = toBoolean asymmetric,
                           co_embedded = toBoolean embedded,
                           co_properties = props,
                           co_ctor = None \<rparr>)))"
  by pat_completeness auto
termination
  by (relation "measure (\<lambda>(f, a). case a of
          Constructor _ \<Rightarrow> 2
        | ObjectSchema s \<Rightarrow> (case os_properties s of PropertiesArray _ \<Rightarrow> 1 | PropertiesObject _ \<Rightarrow> 0))")
     (auto split: properties_types.splits)

definition normalizeRealmSchema :: "bool \<Rightarrow> schema_arg list \<Rightarrow> error + canonical_object_schema list" where
  "normalizeRealmSchema ALLOW_VALUES_ARRAYS realmSchema =
     foldr (\<lambda>arg acc.
              case normalizeObjectSchema ALLOW_VALUES_ARRAYS arg of
                Inl e \<Rightarrow> Inl e
              | Inr c \<Rightarrow> (case acc of Inl e \<Rightarrow> Inl e | Inr cs \<Rightarrow> Inr (c # cs)))
           realmSchema (Inr [])"

section \<open>A canonical schema read as a raw definition\<close>

text \<open>
  A canonical object schema has the shape of a raw definition in mapping form: it
  carries \<^verbatim>\<open>name\<close>, \<^verbatim>\<open>primaryKey\<close>, \<^verbatim>\<open>asymmetric\<close>, \<^verbatim>\<open>embedded\<close> and a
  \<^verbatim>\<open>properties\<close> object whose values are records in object notation. Handing it to the
  normalizer again therefore reads each canonical property record as a
  \<^verbatim>\<open>PropertySchema\<close> with all of \<^verbatim>\<open>optional\<close>, \<^verbatim>\<open>indexed\<close> and \<^verbatim>\<open>mapTo\<close> supplied;
  the fields the normalizer does not read (the property's \<^verbatim>\<open>name\<close>, the object's
  \<^verbatim>\<open>ctor\<close>) play no part. The two functions below write this reading out for the own
  keys of the canonical properties; they are not functions of the source.
\<close>

definition propertySchemaOfCanonical :: "canonical_property_schema \<Rightarrow> property_schema" where
  "propertySchemaOfCanonical c =
     \<lparr> ps_type = cp_type c,
       ps_objectType = cp_objectType c,
       ps_property = cp_property c,
       ps_optional = Some (cp_optional c),
       ps_indexed = Some (cp_indexed c),
       ps_mapTo = Some (cp_mapTo c),
       ps_default = cp_default c \<rparr>"

definition objectSchemaOfCanonical :: "canonical_object_schema \<Rightarrow> object_schema" where
  "objectSchemaOfCanonical C =
     \<lparr> os_name = co_name C,
       os_primaryKey = co_primaryKey C,
       os_asymmetric = Some (co_asymmetric C),
       os_embedded = Some (co_embedded C),
       os_properties =
         PropertiesObject
           (map (\<lambda>(k, c). (k, Explicit (propertySchemaOfCanonical c))) (co_properties C)) \<rparr>"

section \<open>Basic facts about the string helpers\<close>

lemma substring_from_zero: "substring s 0 b = take (nat b) s"
  by (auto simp: substring_def Let_def min_def max_def)

lemma substring1_drop: "substring1 s a = drop (nat a) s"
  by (auto simp: substring1_def substring_def Let_def min_def max_def)

lemma substring1_last2: "substring1 s (int (length s) - 2) = drop (length s - 2) s"
  by (simp add: substring1_drop nat_diff_distrib')

lemma substring_strip2: "substring s 0 (int (length s) - 2) = take (length s - 2) s"
  by (simp add: substring_from_zero nat_diff_distrib')

lemma substring_strip1: "substring s 0 (int (length s) - 1) = butlast s"
  by (simp add: substring_from_zero nat_diff_distrib' butlast_conv_take)

lemma hasCollectionSuffix_iff:
  "hasCollectionSuffix s \<longleftrightarrow> drop (length s - 2) s \<in> {''[]'', ''{}'', ''<>''}"
  by (auto simp: hasCollectionSuffix_def Let_def substring1_last2 truthy_def
        COLLECTION_SHORTHAND_TO_NAME_def split: option.splits if_splits)

lemma hasCollectionSuffix_length: "hasCollectionSuffix s \<Longrightarrow> 2 \<le> length s"
proof -
  assume h: "hasCollectionSuffix s"
  then have "length (drop (length s - 2) s) = 2"
    by (auto simp: hasCollectionSuffix_iff simp del: length_drop)
  then show ?thesis by simp
qed

lemma endsWith_qmark: "endsWith s ''?'' \<longleftrightarrow> s \<noteq> [] \<and> last s = CHR ''?''"
proof (cases s rule: rev_cases)
  case Nil then show ?thesis by (simp add: endsWith_def)
next
  case (snoc ys y) then show ?thesis by (simp add: endsWith_def)
qed

lemma hasCollectionSuffix_append:
  "suf \<in> {''[]'', ''{}'', ''<>''} \<Longrightarrow> hasCollectionSuffix (pre @ suf)"
  by (auto simp: hasCollectionSuffix_iff)

lemma strip2_append:
  "suf \<in> {''[]'', ''{}'', ''<>''} \<Longrightarrow>
   substring (pre @ suf) 0 (int (length (pre @ suf)) - 2) = pre"
  by (auto simp: substring_from_zero)

section \<open>Shorthand notation\<close>

text \<open>
  Claim C4. A shorthand string that ends with a collection suffix (\<open>[]\<close>, \<open>{}\<close> or
  \<open><>\<close>) and whose remainder, once that suffix is stripped, ends with a collection
  suffix again is rejected by \<^verbatim>\<open>normalizePropertySchemaShorthand\<close>, with the error of
  nested collections.
\<close>

theorem nested_collections_rejected:
  assumes "propertySchema info = element @ inner @ outer"
      and "inner \<in> {''[]'', ''{}'', ''<>''}"
      and "outer \<in> {''[]'', ''{}'', ''<>''}"
  shows "normalizePropertySchemaShorthand info =
         Inl (propError info ''Nested collections are not supported.'')"
proof -
  let ?s = "propertySchema info"
  let ?r = "substring ?s 0 (int (length ?s) - 2)"
  have s: "?s = (element @ inner) @ outer" using assms(1) by simp
  have hs: "hasCollectionSuffix ?s"
    unfolding s using assms(3) by (rule hasCollectionSuffix_append)
  have r: "?r = element @ inner"
    unfolding s using assms(3) by (rule strip2_append)
  have hr: "hasCollectionSuffix ?r"
    unfolding r using assms(2) by (rule hasCollectionSuffix_append)
  have l: "0 < length ?s" using hasCollectionSuffix_length [OF hs] by auto
  have lr: "0 < length ?r" using hasCollectionSuffix_length [OF hr] by auto
  have "shorthandCollectionSuffix info ?s =
        Inl (propError info ''Nested collections are not supported.'')"
    using hs hr lr unfolding shorthandCollectionSuffix_def Let_def by simp
  then show ?thesis using l unfolding normalizePropertySchemaShorthand_def by simp
qed

theorem nested_collections_rejected_witness:
  "''int[]{}'' = ''int'' @ ''[]'' @ ''{}'' \<and>
   normalizePropertySchemaShorthand
     \<lparr> objectName = ''Person'', propertyName = ''tags'', propertySchema = ''int[]{}'',
       isPrimaryKey = Some False \<rparr>
   = Inl (PropertySchemaParseError ''Nested collections are not supported.'' ''Person'' ''tags'')"
  using nested_collections_rejected
    [of "\<lparr> objectName = ''Person'', propertyName = ''tags'', propertySchema = ''int[]{}'',
          isPrimaryKey = Some False \<rparr>" "''int''" "''[]''" "''{}''"]
  by (simp add: propError_def)

text \<open>
  Claim C2. For a property that is not the primary key, the shorthands \<open>int\<close>,
  \<open>int?\<close>, \<open>int?[]\<close> and \<open>MyClass\<close> normalize to the canonical records of the
  round-trip scenarios: the type, the optional flag, \<open>indexed = false\<close>, the storage
  name equal to the property name, and an \<open>objectType\<close> only for the list and for the
  relationship.
\<close>

theorem shorthand_round_trip:
  assumes "k \<noteq> Some True"
  shows
   "normalizePropertySchema
      \<lparr> objectName = obj, propertyName = n, propertySchema = Shorthand ''int'', isPrimaryKey = k \<rparr>
    = Inr \<lparr> cp_name = n, cp_type = ''int'', cp_optional = False, cp_indexed = False,
            cp_mapTo = n, cp_objectType = None, cp_property = None, cp_default = None \<rparr> \<and>
    normalizePropertySchema
      \<lparr> objectName = obj, propertyName = n, propertySchema = Shorthand ''int?'', isPrimaryKey = k \<rparr>
    = Inr \<lparr> cp_name = n, cp_type = ''int'', cp_optional = True, cp_indexed = False,
            cp_mapTo = n, cp_objectType = None, cp_property = None, cp_default = None \<rparr> \<and>
    normalizePropertySchema
      \<lparr> objectName = obj, propertyName = n, propertySchema = Shorthand ''int?[]'', isPrimaryKey = k \<rparr>
    = Inr \<lparr> cp_name = n, cp_type = ''list'', cp_optional = True, cp_indexed = False,
            cp_mapTo = n, cp_objectType = Some ''int'', cp_property = None, cp_default = None \<rparr> \<and>
    normalizePropertySchema
      \<lparr> objectName = obj, propertyName = n, propertySchema = Shorthand ''MyClass'', isPrimaryKey = k \<rparr>
    = Inr \<lparr> cp_name = n, cp_type = ''object'', cp_optional = True, cp_indexed = False,
            cp_mapTo = n, cp_objectType = Some ''MyClass'', cp_property = None, cp_default = None \<rparr>"
  using assms
  by (simp add: normalizePropertySchema_def normalizePropertySchemaShorthand_def
        shorthandCollectionSuffix_def shorthandOptionalMarker_def shorthandClassify_def
        shorthandImplicitOptional_def hasCollectionSuffix_iff endsWith_qmark substring_from_zero
        substring1_drop isPrimitive_def isCollection_def isUserDefined_def
        PRIMITIVE_TYPES_def COLLECTION_TYPES_def COLLECTION_SHORTHAND_TO_NAME_def
        optionalIsImplicitlyTrue_def optionalIsImplicitlyFalse_def toBoolean_def truthy_def)

theorem shorthand_round_trip_witness:
  "(None :: bool option) \<noteq> Some True \<and>
   normalizePropertySchema
     \<lparr> objectName = ''Person'', propertyName = ''friends'',
       propertySchema = Shorthand ''int?[]'', isPrimaryKey = None \<rparr>
   = Inr \<lparr> cp_name = ''friends'', cp_type = ''list'', cp_optional = True, cp_indexed = False,
           cp_mapTo = ''friends'', cp_objectType = Some ''int'', cp_property = None,
           cp_default = None \<rparr>"
  using shorthand_round_trip [of None "''Person''" "''friends''"] by simp

section \<open>Implicit optionality\<close>

text \<open>What a successful run of either notation has gone through.\<close>

lemma normalizePropertySchemaObject_InrD:
  assumes "normalizePropertySchemaObject info = Inr c"
  shows "ps_type (propertySchema info) \<noteq> []"
    and "assertNotUsingShorthand (Some (ps_type (propertySchema info))) info = Inr ()"
    and "assertNotUsingShorthand (ps_objectType (propertySchema info)) info = Inr ()"
    and "objectCategoryChecks info = Inr ()"
    and "ps_type (propertySchema info) \<noteq> ''linkingObjects'' \<Longrightarrow> ps_property (propertySchema info) = None"
    and "\<not> (toBoolean (isPrimaryKey info) \<and> ps_indexed (propertySchema info) = Some False)"
    and "\<exists>optional. objectImplicitOptional info = Inr optional \<and>
           c = \<lparr> cp_name = propertyName info,
                 cp_type = ps_type (propertySchema info),
                 cp_optional = toBoolean optional,
                 cp_indexed = toBoolean (if toBoolean (isPrimaryKey info) then Some True
                                         else ps_indexed (propertySchema info)),
                 cp_mapTo = (case ps_mapTo (propertySchema info) of
                               None \<Rightarrow> propertyName info
                             | Some m \<Rightarrow> if m \<noteq> [] then m else propertyName info),
                 cp_objectType = ps_objectType (propertySchema info),
                 cp_property = ps_property (propertySchema info),
                 cp_default = ps_default (propertySchema info) \<rparr>"
  using assms unfolding normalizePropertySchemaObject_def Let_def
  by (auto split: if_splits sum.splits)

lemma normalizePropertySchemaShorthand_InrD:
  assumes "normalizePropertySchemaShorthand info = Inr c"
  shows "\<exists>t rest optional element t' objectType optional'.
           propertySchema info \<noteq> [] \<and>
           shorthandCollectionSuffix info (propertySchema info) = Inr (t, rest) \<and>
           shorthandOptionalMarker info rest = Inr (optional, element) \<and>
           shorthandClassify info t element = Inr (t', objectType) \<and>
           shorthandImplicitOptional info t' objectType optional = Inr optional' \<and>
           c = \<lparr> cp_name = propertyName info, cp_type = t',
                 cp_optional = toBoolean optional',
                 cp_indexed = toBoolean (isPrimaryKey info),
                 cp_mapTo = propertyName info, cp_objectType = objectType,
                 cp_property = None, cp_default = None \<rparr>"
  using assms unfolding normalizePropertySchemaShorthand_def
  by (auto split: if_splits sum.splits)

lemma implicit_exclusive:
  "\<not> (optionalIsImplicitlyTrue t objectType \<and> optionalIsImplicitlyFalse t objectType)"
  by (auto simp: optionalIsImplicitlyTrue_def optionalIsImplicitlyFalse_def isUserDefined_def
        isPrimitive_def PRIMITIVE_TYPES_def)

lemma shorthandImplicitOptional_forced:
  assumes "shorthandImplicitOptional info t objectType optional = Inr optional'"
  shows "(optionalIsImplicitlyTrue t objectType \<longrightarrow> toBoolean optional') \<and>
         (optionalIsImplicitlyFalse t objectType \<longrightarrow> \<not> toBoolean optional')"
  using assms implicit_exclusive [of t objectType]
  unfolding shorthandImplicitOptional_def
  by (auto simp: toBoolean_def split: if_splits)

lemma objectImplicitOptional_forced:
  assumes "objectImplicitOptional info = Inr optional'"
  shows "(optionalIsImplicitlyTrue (ps_type (propertySchema info)) (ps_objectType (propertySchema info))
            \<longrightarrow> toBoolean optional') \<and>
         (optionalIsImplicitlyFalse (ps_type (propertySchema info)) (ps_objectType (propertySchema info))
            \<longrightarrow> \<not> toBoolean optional')"
  using assms
    implicit_exclusive [of "ps_type (propertySchema info)" "ps_objectType (propertySchema info)"]
  unfolding objectImplicitOptional_def Let_def
  by (auto simp: toBoolean_def split: if_splits)

lemma normalizePropertySchema_forced:
  assumes "normalizePropertySchema info = Inr c"
  shows "(optionalIsImplicitlyTrue (cp_type c) (cp_objectType c) \<longrightarrow> cp_optional c) \<and>
         (optionalIsImplicitlyFalse (cp_type c) (cp_objectType c) \<longrightarrow> \<not> cp_optional c)"
proof (cases "propertySchema info")
  case (Shorthand s)
  let ?i = "\<lparr> objectName = objectName info, propertyName = propertyName info,
              propertySchema = s, isPrimaryKey = isPrimaryKey info \<rparr>"
  from assms Shorthand have "normalizePropertySchemaShorthand ?i = Inr c"
    by (simp add: normalizePropertySchema_def)
  from normalizePropertySchemaShorthand_InrD [OF this]
  obtain t' objectType optional optional' where
    io: "shorthandImplicitOptional ?i t' objectType optional = Inr optional'" and
    c: "cp_type c = t'" "cp_objectType c = objectType" "cp_optional c = toBoolean optional'"
    by auto
  show ?thesis using shorthandImplicitOptional_forced [OF io] c by simp
next
  case (Explicit p)
  let ?i = "\<lparr> objectName = objectName info, propertyName = propertyName info,
              propertySchema = p, isPrimaryKey = isPrimaryKey info \<rparr>"
  from assms Explicit have "normalizePropertySchemaObject ?i = Inr c"
    by (simp add: normalizePropertySchema_def)
  from normalizePropertySchemaObject_InrD(7) [OF this]
  obtain optional' where
    io: "objectImplicitOptional ?i = Inr optional'" and
    c: "cp_type c = ps_type (propertySchema ?i)" "cp_objectType c = ps_objectType (propertySchema ?i)"
       "cp_optional c = toBoolean optional'"
    by auto
  show ?thesis using objectImplicitOptional_forced [OF io] c by simp
qed

text \<open>The equations that evaluate the normalizer on a concrete definition.\<close>

lemmas eval_defs =
  normalizePropertySchema_def normalizePropertySchemaShorthand_def
  normalizePropertySchemaObject_def objectCategoryChecks_def objectImplicitOptional_def
  assertNotUsingShorthand_def
  shorthandCollectionSuffix_def shorthandOptionalMarker_def shorthandClassify_def
  shorthandImplicitOptional_def hasCollectionSuffix_iff endsWith_qmark substring_from_zero
  substring1_drop isPrimitive_def isCollection_def isUserDefined_def
  PRIMITIVE_TYPES_def COLLECTION_TYPES_def COLLECTION_SHORTHAND_TO_NAME_def
  optionalIsImplicitlyTrue_def optionalIsImplicitlyFalse_def toBoolean_def truthy_def
  propError_def objectError_def quoted_def
  assignProperty_def defineProperty_def isArrayIndex_def isDigit_def

text \<open>
  Claim C1. For every type and object type at most one of the two implicit-optionality
  predicates holds; \<^verbatim>\<open>optionalIsImplicitlyTrue\<close> holds exactly when the type is
  \<open>mixed\<close>, the object type is \<open>mixed\<close>, the type is \<open>object\<close>, or the type is
  \<open>dictionary\<close> with a user-defined object type; \<^verbatim>\<open>optionalIsImplicitlyFalse\<close> holds
  exactly when the type is \<open>list\<close>, \<open>set\<close> or \<open>linkingObjects\<close> with a user-defined
  object type; and whenever a property, in either notation, normalizes successfully and
  one of the predicates holds of the canonical type and object type, the canonical
  optional flag is the forced value: true for the first, false for the second.
\<close>

theorem implicit_optionality:
  "\<not> (optionalIsImplicitlyTrue t objectType \<and> optionalIsImplicitlyFalse t objectType) \<and>
   (optionalIsImplicitlyTrue t objectType \<longleftrightarrow>
      t = ''mixed'' \<or> objectType = Some ''mixed'' \<or> t = ''object'' \<or>
      (t = ''dictionary'' \<and> isUserDefined objectType)) \<and>
   (optionalIsImplicitlyFalse t objectType \<longleftrightarrow>
      t \<in> {''list'', ''set'', ''linkingObjects''} \<and> isUserDefined objectType) \<and>
   (normalizePropertySchema info = Inr c \<longrightarrow>
      (optionalIsImplicitlyTrue (cp_type c) (cp_objectType c) \<longrightarrow> cp_optional c = True) \<and>
      (optionalIsImplicitlyFalse (cp_type c) (cp_objectType c) \<longrightarrow> cp_optional c = False))"
proof (intro conjI impI)
  show "\<not> (optionalIsImplicitlyTrue t objectType \<and> optionalIsImplicitlyFalse t objectType)"
    by (rule implicit_exclusive)
  show "optionalIsImplicitlyTrue t objectType \<longleftrightarrow>
      t = ''mixed'' \<or> objectType = Some ''mixed'' \<or> t = ''object'' \<or>
      (t = ''dictionary'' \<and> isUserDefined objectType)"
    by (simp add: optionalIsImplicitlyTrue_def)
  show "optionalIsImplicitlyFalse t objectType \<longleftrightarrow>
      t \<in> {''list'', ''set'', ''linkingObjects''} \<and> isUserDefined objectType"
    by (auto simp: optionalIsImplicitlyFalse_def)
next
  assume "normalizePropertySchema info = Inr c" "optionalIsImplicitlyTrue (cp_type c) (cp_objectType c)"
  then show "cp_optional c = True" using normalizePropertySchema_forced by simp
next
  assume "normalizePropertySchema info = Inr c" "optionalIsImplicitlyFalse (cp_type c) (cp_objectType c)"
  then show "cp_optional c = False" using normalizePropertySchema_forced by simp
qed

theorem implicit_optionality_witness:
  "(normalizePropertySchema
      \<lparr> objectName = ''Person'', propertyName = ''dog'', propertySchema = Shorthand ''Dog'',
        isPrimaryKey = None \<rparr>
    = Inr \<lparr> cp_name = ''dog'', cp_type = ''object'', cp_optional = True, cp_indexed = False,
            cp_mapTo = ''dog'', cp_objectType = Some ''Dog'', cp_property = None,
            cp_default = None \<rparr> \<and>
    optionalIsImplicitlyTrue ''object'' (Some ''Dog'')) \<and>
   (normalizePropertySchema
      \<lparr> objectName = ''Person'', propertyName = ''dogs'',
        propertySchema = Explicit \<lparr> ps_type = ''list'', ps_objectType = Some ''Dog'',
          ps_property = None, ps_optional = None, ps_indexed = None, ps_mapTo = None,
          ps_default = None \<rparr>,
        isPrimaryKey = None \<rparr>
    = Inr \<lparr> cp_name = ''dogs'', cp_type = ''list'', cp_optional = False, cp_indexed = False,
            cp_mapTo = ''dogs'', cp_objectType = Some ''Dog'', cp_property = None,
            cp_default = None \<rparr> \<and>
    optionalIsImplicitlyFalse ''list'' (Some ''Dog''))"
proof -
  let ?i1 = "\<lparr> objectName = ''Person'', propertyName = ''dog'', propertySchema = Shorthand ''Dog'',
        isPrimaryKey = None \<rparr>"
  let ?i2 = "\<lparr> objectName = ''Person'', propertyName = ''dogs'',
        propertySchema = Explicit \<lparr> ps_type = ''list'', ps_objectType = Some ''Dog'',
          ps_property = None, ps_optional = None, ps_indexed = None, ps_mapTo = None,
          ps_default = None \<rparr>,
        isPrimaryKey = None \<rparr>"
  have t: "optionalIsImplicitlyTrue ''object'' (Some ''Dog'')"
    using implicit_optionality [of "''object''" "Some ''Dog''"]
    by simp
  have f: "optionalIsImplicitlyFalse ''list'' (Some ''Dog'')"
    using implicit_optionality [of "''list''" "Some ''Dog''"]
    by (simp add: isUserDefined_def truthy_def isPrimitive_def isCollection_def
          PRIMITIVE_TYPES_def COLLECTION_TYPES_def)
  obtain c1 where c1: "normalizePropertySchema ?i1 = Inr c1" "cp_type c1 = ''object''"
      "cp_objectType c1 = Some ''Dog''" "cp_name c1 = ''dog''" "cp_indexed c1 = False"
      "cp_mapTo c1 = ''dog''" "cp_property c1 = None" "cp_default c1 = None"
    by (simp add: eval_defs)
  obtain c2 where c2: "normalizePropertySchema ?i2 = Inr c2" "cp_type c2 = ''list''"
      "cp_objectType c2 = Some ''Dog''" "cp_name c2 = ''dogs''" "cp_indexed c2 = False"
      "cp_mapTo c2 = ''dogs''" "cp_property c2 = None" "cp_default c2 = None"
    by (simp add: eval_defs Let_def)
  have o1: "cp_optional c1 = True"
    using implicit_optionality [of "''object''" "Some ''Dog''" ?i1 c1] c1 t by simp
  have o2: "cp_optional c2 = False"
    using implicit_optionality [of "''list''" "Some ''Dog''" ?i2 c2] c2 f by simp
  have "c1 = \<lparr> cp_name = ''dog'', cp_type = ''object'', cp_optional = True, cp_indexed = False,
            cp_mapTo = ''dog'', cp_objectType = Some ''Dog'', cp_property = None,
            cp_default = None \<rparr>"
    using c1 o1 by (cases c1) simp
  moreover have "c2 = \<lparr> cp_name = ''dogs'', cp_type = ''list'', cp_optional = False, cp_indexed = False,
            cp_mapTo = ''dogs'', cp_objectType = Some ''Dog'', cp_property = None,
            cp_default = None \<rparr>"
    using c2 o2 by (cases c2) simp
  ultimately show ?thesis using c1(1) c2(1) t f by simp
qed

section \<open>Object notation\<close>

lemma objectCategoryChecks_linkingObjects:
  assumes "objectCategoryChecks info = Inr u"
      and "ps_type (propertySchema info) = ''linkingObjects''"
  shows "isUserDefined (ps_objectType (propertySchema info)) \<and>
         truthy (ps_property (propertySchema info))"
  using assms unfolding objectCategoryChecks_def Let_def
  by (simp add: isPrimitive_def isCollection_def PRIMITIVE_TYPES_def COLLECTION_TYPES_def
        split: if_splits)

text \<open>
  Claim C6. In object notation a \<open>property\<close> field goes with the type
  \<open>linkingObjects\<close> only: when the type is \<open>linkingObjects\<close>, normalization fails unless
  the object type is user-defined and \<open>property\<close> is supplied; for every other type,
  normalization fails when \<open>property\<close> is supplied.
\<close>

theorem property_only_for_linkingObjects:
  "(ps_type (propertySchema info) = ''linkingObjects'' \<and>
    \<not> (isUserDefined (ps_objectType (propertySchema info)) \<and>
       ps_property (propertySchema info) \<noteq> None)
      \<longrightarrow> (\<exists>e. normalizePropertySchemaObject info = Inl e)) \<and>
   (ps_type (propertySchema info) \<noteq> ''linkingObjects'' \<and>
    ps_property (propertySchema info) \<noteq> None
      \<longrightarrow> (\<exists>e. normalizePropertySchemaObject info = Inl e))"
proof (intro conjI impI)
  assume a: "ps_type (propertySchema info) = ''linkingObjects'' \<and>
    \<not> (isUserDefined (ps_objectType (propertySchema info)) \<and>
       ps_property (propertySchema info) \<noteq> None)"
  show "\<exists>e. normalizePropertySchemaObject info = Inl e"
  proof (cases "normalizePropertySchemaObject info")
    case (Inl e) then show ?thesis by blast
  next
    case (Inr c)
    from normalizePropertySchemaObject_InrD(4) [OF Inr] a
    have "isUserDefined (ps_objectType (propertySchema info)) \<and>
          truthy (ps_property (propertySchema info))"
      using objectCategoryChecks_linkingObjects by blast
    with a show ?thesis by (auto simp: truthy_def)
  qed
next
  assume a: "ps_type (propertySchema info) \<noteq> ''linkingObjects'' \<and>
    ps_property (propertySchema info) \<noteq> None"
  show "\<exists>e. normalizePropertySchemaObject info = Inl e"
  proof (cases "normalizePropertySchemaObject info")
    case (Inl e) then show ?thesis by blast
  next
    case (Inr c)
    from normalizePropertySchemaObject_InrD(5) [OF Inr] a show ?thesis by simp
  qed
qed

theorem property_only_for_linkingObjects_witness:
  "normalizePropertySchemaObject
     \<lparr> objectName = ''Dog'', propertyName = ''owners'',
       propertySchema = \<lparr> ps_type = ''linkingObjects'', ps_objectType = Some ''Person'',
         ps_property = None, ps_optional = None, ps_indexed = None, ps_mapTo = None,
         ps_default = None \<rparr>,
       isPrimaryKey = Some False \<rparr>
   = Inl (PropertySchemaParseError
        ''The linking object's property name must be specified through 'property'.''
        ''Dog'' ''owners'') \<and>
   normalizePropertySchemaObject
     \<lparr> objectName = ''Dog'', propertyName = ''age'',
       propertySchema = \<lparr> ps_type = ''int'', ps_objectType = None,
         ps_property = Some ''dogs'', ps_optional = None, ps_indexed = None, ps_mapTo = None,
         ps_default = None \<rparr>,
       isPrimaryKey = Some False \<rparr>
   = Inl (PropertySchemaParseError
        '''property' can only be specified if 'type' is 'linkingObjects'.''
        ''Dog'' ''age'')"
proof -
  let ?i1 = "\<lparr> objectName = ''Dog'', propertyName = ''owners'',
       propertySchema = \<lparr> ps_type = ''linkingObjects'', ps_objectType = Some ''Person'',
         ps_property = None, ps_optional = None, ps_indexed = None, ps_mapTo = None,
         ps_default = None \<rparr>,
       isPrimaryKey = Some False \<rparr>"
  let ?i2 = "\<lparr> objectName = ''Dog'', propertyName = ''age'',
       propertySchema = \<lparr> ps_type = ''int'', ps_objectType = None,
         ps_property = Some ''dogs'', ps_optional = None, ps_indexed = None, ps_mapTo = None,
         ps_default = None \<rparr>,
       isPrimaryKey = Some False \<rparr>"
  obtain e1 where e1: "normalizePropertySchemaObject ?i1 = Inl e1"
    using property_only_for_linkingObjects [of ?i1] by auto
  obtain e2 where e2: "normalizePropertySchemaObject ?i2 = Inl e2"
    using property_only_for_linkingObjects [of ?i2] by auto
  from e1 have "e1 = PropertySchemaParseError
        ''The linking object's property name must be specified through 'property'.''
        ''Dog'' ''owners''"
    by (simp add: eval_defs Let_def)
  moreover from e2 have "e2 = PropertySchemaParseError
        '''property' can only be specified if 'type' is 'linkingObjects'.''
        ''Dog'' ''age''"
    by (simp add: eval_defs Let_def)
  ultimately show ?thesis using e1 e2 by simp
qed

text \<open>
  Claim C9, as stated, says that the canonical storage name equals the supplied
  \<open>mapTo\<close> whenever one is supplied. The source writes
  \<^verbatim>\<open>propertySchema.mapTo || info.propertyName\<close>, so a supplied empty string gives way
  to the property name: for the property \<open>age\<close> with \<open>mapTo\<close> the empty string, the
  canonical storage name is \<open>age\<close>.
\<close>

theorem mapTo_empty_counterexample:
  "ps_mapTo \<lparr> ps_type = ''int'', ps_objectType = None, ps_property = None, ps_optional = None,
             ps_indexed = None, ps_mapTo = Some [], ps_default = None \<rparr> = Some [] \<and>
   normalizePropertySchemaObject
     \<lparr> objectName = ''Person'', propertyName = ''age'',
       propertySchema = \<lparr> ps_type = ''int'', ps_objectType = None, ps_property = None,
         ps_optional = None, ps_indexed = None, ps_mapTo = Some [], ps_default = None \<rparr>,
       isPrimaryKey = None \<rparr>
   = Inr \<lparr> cp_name = ''age'', cp_type = ''int'', cp_optional = False, cp_indexed = False,
           cp_mapTo = ''age'', cp_objectType = None, cp_property = None, cp_default = None \<rparr> \<and>
   ''age'' \<noteq> []"
  by (simp add: eval_defs Let_def)

text \<open>
  Claim C9, amended. When a property in object notation normalizes successfully, the
  canonical storage name equals the supplied \<open>mapTo\<close> whenever a non-empty one is
  supplied, and equals the property name whenever \<open>mapTo\<close> is absent or the empty
  string.
\<close>

theorem mapTo_resolution:
  assumes "normalizePropertySchemaObject info = Inr c"
  shows "(\<forall>m. ps_mapTo (propertySchema info) = Some m \<and> m \<noteq> [] \<longrightarrow> cp_mapTo c = m) \<and>
         (ps_mapTo (propertySchema info) = None \<or> ps_mapTo (propertySchema info) = Some []
            \<longrightarrow> cp_mapTo c = propertyName info)"
  using normalizePropertySchemaObject_InrD(7) [OF assms] by auto

theorem mapTo_resolution_witness:
  "normalizePropertySchemaObject
     \<lparr> objectName = ''Person'', propertyName = ''age'',
       propertySchema = \<lparr> ps_type = ''int'', ps_objectType = None, ps_property = None,
         ps_optional = None, ps_indexed = None, ps_mapTo = Some ''_age'', ps_default = None \<rparr>,
       isPrimaryKey = None \<rparr>
   = Inr \<lparr> cp_name = ''age'', cp_type = ''int'', cp_optional = False, cp_indexed = False,
           cp_mapTo = ''_age'', cp_objectType = None, cp_property = None, cp_default = None \<rparr> \<and>
   cp_mapTo \<lparr> cp_name = ''age'', cp_type = ''int'', cp_optional = False, cp_indexed = False,
           cp_mapTo = ''_age'', cp_objectType = None, cp_property = None, cp_default = None \<rparr>
   = ''_age''"
proof -
  let ?i = "\<lparr> objectName = ''Person'', propertyName = ''age'',
       propertySchema = \<lparr> ps_type = ''int'', ps_objectType = None, ps_property = None,
         ps_optional = None, ps_indexed = None, ps_mapTo = Some ''_age'', ps_default = None \<rparr>,
       isPrimaryKey = None \<rparr>"
  let ?c = "\<lparr> cp_name = ''age'', cp_type = ''int'', cp_optional = False, cp_indexed = False,
           cp_mapTo = ''_age'', cp_objectType = None, cp_property = None, cp_default = None \<rparr>"
  have e: "normalizePropertySchemaObject ?i = Inr ?c"
    by (simp add: eval_defs Let_def)
  from mapTo_resolution [OF e] e show ?thesis by simp
qed

section \<open>The optional marker of the shorthand notation\<close>

lemma shorthandOptionalMarker_marked:
  assumes "endsWith rest ''?''"
  shows "shorthandOptionalMarker info rest =
           (if butlast rest = []
            then Inl (propError info
                   ''The type must be specified. (Examples: 'int?' and 'int?[]')'')
            else if hasCollectionSuffix (butlast rest)
            then Inl (propError info
                   ''Collections cannot be optional. To allow elements of the collection to be optional, use '?' after the element type. (Examples: 'int?[]', 'int?{}', and 'int?<>')'')
            else Inr (Some True, butlast rest))"
  using assms unfolding shorthandOptionalMarker_def Let_def substring_strip1
  by (simp del: length_butlast)

text \<open>
  Claim C5, as stated, has the parser reject a trailing \<open>?\<close> whenever the earlier step
  recorded a collection kind. The source tests the string left after the \<open>?\<close> is
  stripped, not the recorded kind: for \<open>int?[]\<close> the collection step records \<open>list\<close>
  and leaves \<open>int?\<close>, which ends with \<open>?\<close>, and the property is accepted as a list of
  optional integers.
\<close>

theorem optional_after_collection_counterexample:
  "shorthandCollectionSuffix
     \<lparr> objectName = ''Person'', propertyName = ''scores'', propertySchema = ''int?[]'',
       isPrimaryKey = None \<rparr> ''int?[]''
   = Inr (''list'', ''int?'') \<and>
   endsWith ''int?'' ''?'' \<and>
   normalizePropertySchemaShorthand
     \<lparr> objectName = ''Person'', propertyName = ''scores'', propertySchema = ''int?[]'',
       isPrimaryKey = None \<rparr>
   = Inr \<lparr> cp_name = ''scores'', cp_type = ''list'', cp_optional = True, cp_indexed = False,
           cp_mapTo = ''scores'', cp_objectType = Some ''int'', cp_property = None,
           cp_default = None \<rparr>"
  by (simp add: eval_defs Let_def)

text \<open>
  Claim C5, amended. When the string left by the collection-suffix step ends with
  \<open>?\<close>, the parser records \<open>optional = true\<close> and strips the \<open>?\<close>; it rejects the input
  when nothing is left, and it rejects the input when what is left ends with a collection
  suffix (the marker was written after the collection, as in \<open>int[]?\<close>). A collection
  kind recorded by the earlier step does not by itself reject the input, and every input
  that is then accepted has the canonical optional flag true.
\<close>

theorem optional_marker_step:
  assumes "propertySchema info \<noteq> []"
      and "shorthandCollectionSuffix info (propertySchema info) = Inr (t, rest)"
      and "endsWith rest ''?''"
  shows "(butlast rest = [] \<longrightarrow>
            normalizePropertySchemaShorthand info =
              Inl (propError info
                ''The type must be specified. (Examples: 'int?' and 'int?[]')'')) \<and>
         (butlast rest \<noteq> [] \<and> hasCollectionSuffix (butlast rest) \<longrightarrow>
            normalizePropertySchemaShorthand info =
              Inl (propError info
                ''Collections cannot be optional. To allow elements of the collection to be optional, use '?' after the element type. (Examples: 'int?[]', 'int?{}', and 'int?<>')'')) \<and>
         (butlast rest \<noteq> [] \<and> \<not> hasCollectionSuffix (butlast rest) \<longrightarrow>
            shorthandOptionalMarker info rest = Inr (Some True, butlast rest)) \<and>
         (\<forall>c. normalizePropertySchemaShorthand info = Inr c \<longrightarrow> cp_optional c = True)"
proof -
  note m = shorthandOptionalMarker_marked [OF assms(3), of info]
  have 1: "butlast rest = [] \<longrightarrow>
            normalizePropertySchemaShorthand info =
              Inl (propError info
                ''The type must be specified. (Examples: 'int?' and 'int?[]')'')"
    using assms(1,2) m unfolding normalizePropertySchemaShorthand_def by simp
  have 2: "butlast rest \<noteq> [] \<and> hasCollectionSuffix (butlast rest) \<longrightarrow>
            normalizePropertySchemaShorthand info =
              Inl (propError info
                ''Collections cannot be optional. To allow elements of the collection to be optional, use '?' after the element type. (Examples: 'int?[]', 'int?{}', and 'int?<>')'')"
    using assms(1,2) m unfolding normalizePropertySchemaShorthand_def by simp
  have 3: "butlast rest \<noteq> [] \<and> \<not> hasCollectionSuffix (butlast rest) \<longrightarrow>
            shorthandOptionalMarker info rest = Inr (Some True, butlast rest)"
    using m by simp
  have 4: "cp_optional c = True" if c: "normalizePropertySchemaShorthand info = Inr c" for c
  proof -
    from normalizePropertySchemaShorthand_InrD [OF c] assms(2)
    obtain optional element t' objectType optional' where
      om: "shorthandOptionalMarker info rest = Inr (optional, element)" and
      io: "shorthandImplicitOptional info t' objectType optional = Inr optional'" and
      co: "cp_optional c = toBoolean optional'"
      by auto
    from om m have "optional = Some True" by (auto split: if_splits)
    with io have "toBoolean optional'"
      unfolding shorthandImplicitOptional_def by (auto simp: toBoolean_def split: if_splits)
    with co show ?thesis by simp
  qed
  from 1 2 3 4 show ?thesis by blast
qed

theorem optional_marker_step_witness:
  "''int[]?'' \<noteq> [] \<and>
   shorthandCollectionSuffix
     \<lparr> objectName = ''Person'', propertyName = ''scores'', propertySchema = ''int[]?'',
       isPrimaryKey = None \<rparr> ''int[]?''
   = Inr ([], ''int[]?'') \<and>
   endsWith ''int[]?'' ''?'' \<and>
   hasCollectionSuffix (butlast ''int[]?'') \<and>
   normalizePropertySchemaShorthand
     \<lparr> objectName = ''Person'', propertyName = ''scores'', propertySchema = ''int[]?'',
       isPrimaryKey = None \<rparr>
   = Inl (PropertySchemaParseError
       ''Collections cannot be optional. To allow elements of the collection to be optional, use '?' after the element type. (Examples: 'int?[]', 'int?{}', and 'int?<>')''
       ''Person'' ''scores'')"
proof -
  let ?i = "\<lparr> objectName = ''Person'', propertyName = ''scores'', propertySchema = ''int[]?'',
       isPrimaryKey = None \<rparr>"
  have a: "propertySchema ?i \<noteq> []" by simp
  have b: "shorthandCollectionSuffix ?i (propertySchema ?i) = Inr ([], ''int[]?'')"
    by (simp add: shorthandCollectionSuffix_def hasCollectionSuffix_iff)
  have c: "endsWith ''int[]?'' ''?''" by (simp add: endsWith_qmark)
  have d: "hasCollectionSuffix (butlast ''int[]?'')" by (simp add: hasCollectionSuffix_iff)
  from optional_marker_step [OF a b c] d
  have "normalizePropertySchemaShorthand ?i =
        Inl (propError ?i
          ''Collections cannot be optional. To allow elements of the collection to be optional, use '?' after the element type. (Examples: 'int?[]', 'int?{}', and 'int?<>')'')"
    by simp
  with b c d show ?thesis by (simp add: propError_def)
qed

section \<open>Objects\<close>

text \<open>
  Claim C10. Called with a class constructor whose static \<open>schema\<close> is absent,
  \<^verbatim>\<open>normalizeObjectSchema\<close> raises a \<^verbatim>\<open>SchemaParseError\<close> with the message
  \<open>A static schema must be specified on this class.\<close>; when the schema is present, the
  result is that of normalizing the schema, with the constructor recorded on the
  canonical object schema.
\<close>

theorem static_schema_required:
  "(ctor_schema arg = None \<longrightarrow>
      normalizeObjectSchema flag (Constructor arg) =
        Inl (SchemaParseError ''A static schema must be specified on this class.'')) \<and>
   (\<forall>s. ctor_schema arg = Some s \<longrightarrow>
      normalizeObjectSchema flag (Constructor arg) =
        (case normalizeObjectSchema flag (ObjectSchema s) of
           Inl e \<Rightarrow> Inl e
         | Inr objectSchema \<Rightarrow> Inr (objectSchema \<lparr> co_ctor := Some arg \<rparr>)))"
  by simp

theorem static_schema_required_witness:
  "ctor_schema \<lparr> ctor_name = ''Person'', ctor_schema = None \<rparr> = None \<and>
   normalizeObjectSchema False (Constructor \<lparr> ctor_name = ''Person'', ctor_schema = None \<rparr>)
   = Inl (SchemaParseError ''A static schema must be specified on this class.'') \<and>
   normalizeObjectSchema False
     (Constructor \<lparr> ctor_name = ''Dog'', ctor_schema = Some
        \<lparr> os_name = ''Dog'', os_primaryKey = None, os_asymmetric = None, os_embedded = None,
          os_properties = PropertiesObject [] \<rparr> \<rparr>)
   = Inr \<lparr> co_name = ''Dog'', co_primaryKey = None, co_asymmetric = False, co_embedded = False,
           co_properties = [],
           co_ctor = Some \<lparr> ctor_name = ''Dog'', ctor_schema = Some
             \<lparr> os_name = ''Dog'', os_primaryKey = None, os_asymmetric = None, os_embedded = None,
               os_properties = PropertiesObject [] \<rparr> \<rparr> \<rparr>"
proof -
  let ?s = "\<lparr> os_name = ''Dog'', os_primaryKey = None, os_asymmetric = None, os_embedded = None,
          os_properties = PropertiesObject [] \<rparr>"
  let ?p = "\<lparr> ctor_name = ''Person'', ctor_schema = None \<rparr>"
  let ?d = "\<lparr> ctor_name = ''Dog'', ctor_schema = Some ?s \<rparr>"
  have n: "normalizeObjectSchema False (ObjectSchema ?s) =
        Inr \<lparr> co_name = ''Dog'', co_primaryKey = None, co_asymmetric = False, co_embedded = False,
           co_properties = [], co_ctor = None \<rparr>"
    by (simp add: Let_def truthy_def toBoolean_def normalizePropertySchemas_def)
  have 1: "normalizeObjectSchema False (Constructor ?p) =
        Inl (SchemaParseError ''A static schema must be specified on this class.'')"
    using static_schema_required [of ?p False] by simp
  have 2: "normalizeObjectSchema False (Constructor ?d) =
        (case normalizeObjectSchema False (ObjectSchema ?s) of
           Inl e \<Rightarrow> Inl e
         | Inr objectSchema \<Rightarrow> Inr (objectSchema \<lparr> co_ctor := Some ?d \<rparr>))"
    using static_schema_required [of ?d False] by simp
  show ?thesis using 1 2 n by simp
qed

text \<open>
  Own keys under \<^verbatim>\<open>defineProperty\<close> and \<^verbatim>\<open>assignProperty\<close>, and the loop over the
  properties: where each canonical record of the result comes from, that a successful
  loop has normalized every property, that the loop fails with the error of the first
  property that fails, and what the result holds under each key.
\<close>

lemma set_insertIndex: "set (insertIndex k v obj) = insert (k, v) (set obj)"
  by (induction obj) (auto split: if_splits)

lemma set_defineProperty_subset:
  "(a, b) \<in> set (defineProperty k v obj) \<Longrightarrow> (a, b) = (k, v) \<or> (a, b) \<in> set obj"
proof -
  have u: "(a, b) \<in> set (AList.update k v al) \<Longrightarrow> (a, b) = (k, v) \<or> (a, b) \<in> set al" for al
    by (induction al) (auto split: if_splits)
  assume "(a, b) \<in> set (defineProperty k v obj)"
  then show ?thesis
    unfolding defineProperty_def using u [of obj]
    by (auto simp: set_insertIndex split: if_splits)
qed

lemma set_assignProperty_subset:
  "(a, b) \<in> set (assignProperty k v obj) \<Longrightarrow> (a, b) = (k, v) \<or> (a, b) \<in> set obj"
  unfolding assignProperty_def using set_defineProperty_subset [of a b k v obj]
  by (auto split: if_splits)

lemma map_of_insertIndex:
  "k \<notin> fst ` set obj \<Longrightarrow> map_of (insertIndex k v obj) = (map_of obj)(k \<mapsto> v)"
proof (induction obj)
  case Nil then show ?case by simp
next
  case (Cons x obj)
  obtain k' v' where x: "x = (k', v')" by (cases x)
  from Cons.prems x have ne: "k' \<noteq> k" and nk: "k \<notin> fst ` set obj" by auto
  show ?case using Cons.IH [OF nk] ne x by (auto simp: fun_upd_twist)
qed

lemma map_of_defineProperty: "map_of (defineProperty k v obj) = (map_of obj)(k \<mapsto> v)"
proof (cases "k \<in> fst ` set obj")
  case True
  then show ?thesis by (simp add: defineProperty_def update_conv')
next
  case False
  then have n: "map_of obj k = None" by (simp add: map_of_eq_None_iff)
  have "map_of (obj @ [(k, v)]) = (map_of obj)(k \<mapsto> v)"
  proof
    fix x show "map_of (obj @ [(k, v)]) x = ((map_of obj)(k \<mapsto> v)) x"
      using n by (auto simp: map_add_def split: option.splits)
  qed
  with False show ?thesis by (simp add: defineProperty_def map_of_insertIndex)
qed

lemma map_of_assignProperty:
  "map_of (assignProperty k v obj) =
   (if k = ''__proto__'' then map_of obj else (map_of obj)(k \<mapsto> v))"
  by (simp add: assignProperty_def map_of_defineProperty)

lemma loop_origin:
  "normalizePropertySchemasLoop obj pk ps acc = Inr res \<Longrightarrow> (k, c) \<in> set res \<Longrightarrow>
   (k, c) \<in> set acc \<or>
   (\<exists>p. (k, p) \<in> set ps \<and>
        normalizePropertySchema
          \<lparr> objectName = obj, propertyName = k, propertySchema = p,
            isPrimaryKey = Some (pk = Some k) \<rparr> = Inr c)"
proof (induction ps arbitrary: acc)
  case Nil then show ?case by simp
next
  case (Cons x ps)
  obtain k' p' where x: "x = (k', p')" by (cases x)
  from Cons.prems(1) x obtain c' where
    n: "normalizePropertySchema
          \<lparr> objectName = obj, propertyName = k', propertySchema = p',
            isPrimaryKey = Some (pk = Some k') \<rparr> = Inr c'" and
    r: "normalizePropertySchemasLoop obj pk ps (assignProperty k' c' acc) = Inr res"
    by (auto split: sum.splits)
  from Cons.IH [OF r Cons.prems(2)] show ?case
  proof
    assume "(k, c) \<in> set (assignProperty k' c' acc)"
    then have "(k, c) = (k', c') \<or> (k, c) \<in> set acc" by (rule set_assignProperty_subset)
    then show ?thesis using n x by auto
  next
    assume "\<exists>p. (k, p) \<in> set ps \<and>
        normalizePropertySchema
          \<lparr> objectName = obj, propertyName = k, propertySchema = p,
            isPrimaryKey = Some (pk = Some k) \<rparr> = Inr c"
    then show ?thesis using x by auto
  qed
qed


lemma loop_total:
  "(\<forall>(k, p) \<in> set ps.
      \<exists>c. normalizePropertySchema
             \<lparr> objectName = obj, propertyName = k, propertySchema = p,
               isPrimaryKey = Some (pk = Some k) \<rparr> = Inr c) \<Longrightarrow>
   \<exists>res. normalizePropertySchemasLoop obj pk ps acc = Inr res"
proof (induction ps arbitrary: acc)
  case Nil then show ?case by simp
next
  case (Cons x ps)
  obtain k p where x: "x = (k, p)" by (cases x)
  from Cons.prems x obtain c where
    n: "normalizePropertySchema
          \<lparr> objectName = obj, propertyName = k, propertySchema = p,
            isPrimaryKey = Some (pk = Some k) \<rparr> = Inr c"
    by auto
  from Cons.prems have "\<forall>(k, p) \<in> set ps.
      \<exists>c. normalizePropertySchema
             \<lparr> objectName = obj, propertyName = k, propertySchema = p,
               isPrimaryKey = Some (pk = Some k) \<rparr> = Inr c"
    by simp
  from Cons.IH [OF this, of "assignProperty k c acc"] n x show ?case by simp
qed

lemma loop_first_error:
  assumes "\<forall>(k', p') \<in> set ys.
      \<exists>c. normalizePropertySchema
             \<lparr> objectName = obj, propertyName = k', propertySchema = p',
               isPrimaryKey = Some (pk = Some k') \<rparr> = Inr c"
      and "normalizePropertySchema
             \<lparr> objectName = obj, propertyName = k, propertySchema = p,
               isPrimaryKey = Some (pk = Some k) \<rparr> = Inl e"
  shows "normalizePropertySchemasLoop obj pk (ys @ (k, p) # zs) acc = Inl e"
  using assms(1)
proof (induction ys arbitrary: acc)
  case Nil then show ?case using assms(2) by simp
next
  case (Cons y ys)
  obtain k' p' where y: "y = (k', p')" by (cases y)
  from Cons.prems y obtain c where
    n: "normalizePropertySchema
          \<lparr> objectName = obj, propertyName = k', propertySchema = p',
            isPrimaryKey = Some (pk = Some k') \<rparr> = Inr c"
    by auto
  from Cons.prems have "\<forall>(k', p') \<in> set ys.
      \<exists>c. normalizePropertySchema
             \<lparr> objectName = obj, propertyName = k', propertySchema = p',
               isPrimaryKey = Some (pk = Some k') \<rparr> = Inr c"
    by simp
  from Cons.IH [OF this, of "assignProperty k' c acc"] n y show ?case by simp
qed

lemma loop_map_of:
  assumes "normalizePropertySchemasLoop obj pk ps acc = Inr res"
      and "distinct (map fst ps)"
  shows "map_of res k = Some c \<longleftrightarrow>
         (k \<noteq> ''__proto__'' \<and>
          (\<exists>p. (k, p) \<in> set ps \<and>
               normalizePropertySchema
                 \<lparr> objectName = obj, propertyName = k, propertySchema = p,
                   isPrimaryKey = Some (pk = Some k) \<rparr> = Inr c)) \<or>
         ((k = ''__proto__'' \<or> k \<notin> fst ` set ps) \<and> map_of acc k = Some c)"
  using assms
proof (induction ps arbitrary: acc)
  case Nil then show ?case by auto
next
  case (Cons x ps)
  obtain k' p' where x: "x = (k', p')" by (cases x)
  from Cons.prems(1) x obtain c' where
    n: "normalizePropertySchema
          \<lparr> objectName = obj, propertyName = k', propertySchema = p',
            isPrimaryKey = Some (pk = Some k') \<rparr> = Inr c'" and
    r: "normalizePropertySchemasLoop obj pk ps (assignProperty k' c' acc) = Inr res"
    by (auto split: sum.splits)
  from Cons.prems(2) x have d: "distinct (map fst ps)" and fresh: "k' \<notin> fst ` set ps"
    by auto
  note ih = Cons.IH [OF r d]
  show ?case
  proof (cases "k = k'")
    case True
    with fresh have nk: "k \<notin> fst ` set ps" by simp
    then have np: "\<And>p. (k, p) \<notin> set ps" by force
    show ?thesis
      unfolding ih using True nk np n x
      by (auto simp: map_of_assignProperty)
  next
    case False
    show ?thesis
      unfolding ih using False x
      by (auto simp: map_of_assignProperty)
  qed
qed

lemma distinct_insertIndex:
  "k \<notin> fst ` set obj \<Longrightarrow> distinct (map fst obj) \<Longrightarrow>
   distinct (map fst (insertIndex k v obj))"
proof (induction obj)
  case Nil then show ?case by simp
next
  case (Cons x obj)
  obtain k' v' where x: "x = (k', v')" by (cases x)
  from Cons.prems x have ne: "k' \<noteq> k" and nk: "k \<notin> fst ` set obj"
    and d: "distinct (map fst obj)" and f: "k' \<notin> fst ` set obj"
    by auto
  have "k' \<notin> fst ` set (insertIndex k v obj)"
    using ne f by (simp add: set_insertIndex)
  with Cons.IH [OF nk d] Cons.prems x show ?case by auto
qed

lemma distinct_defineProperty:
  "distinct (map fst obj) \<Longrightarrow> distinct (map fst (defineProperty k v obj))"
  unfolding defineProperty_def
  by (auto simp: distinct_update distinct_insertIndex)

lemma distinct_assignProperty:
  "distinct (map fst obj) \<Longrightarrow> distinct (map fst (assignProperty k v obj))"
  unfolding assignProperty_def by (simp add: distinct_defineProperty)

lemma loop_distinct:
  "normalizePropertySchemasLoop obj pk ps acc = Inr res \<Longrightarrow> distinct (map fst acc) \<Longrightarrow>
   distinct (map fst res)"
proof (induction ps arbitrary: acc)
  case Nil then show ?case by simp
next
  case (Cons x ps)
  obtain k p where x: "x = (k, p)" by (cases x)
  from Cons.prems(1) x obtain c where
    r: "normalizePropertySchemasLoop obj pk ps (assignProperty k c acc) = Inr res"
    by (auto split: sum.splits)
  from Cons.IH [OF r] Cons.prems(2) show ?case by (simp add: distinct_assignProperty)
qed

lemma normalizePropertySchemas_origin:
  "normalizePropertySchemas obj ps pk = Inr res \<Longrightarrow> (k, c) \<in> set res \<Longrightarrow>
   \<exists>p. (k, p) \<in> set ps \<and>
        normalizePropertySchema
          \<lparr> objectName = obj, propertyName = k, propertySchema = p,
            isPrimaryKey = Some (pk = Some k) \<rparr> = Inr c"
  unfolding normalizePropertySchemas_def by (drule loop_origin) auto


lemma normalizePropertySchemas_total:
  "(\<forall>(k, p) \<in> set ps.
      \<exists>c. normalizePropertySchema
             \<lparr> objectName = obj, propertyName = k, propertySchema = p,
               isPrimaryKey = Some (pk = Some k) \<rparr> = Inr c) \<Longrightarrow>
   \<exists>res. normalizePropertySchemas obj ps pk = Inr res"
  unfolding normalizePropertySchemas_def by (rule loop_total)

lemma normalizePropertySchemas_first_error:
  "(\<forall>(k', p') \<in> set ys.
      \<exists>c. normalizePropertySchema
             \<lparr> objectName = obj, propertyName = k', propertySchema = p',
               isPrimaryKey = Some (pk = Some k') \<rparr> = Inr c) \<Longrightarrow>
   normalizePropertySchema
     \<lparr> objectName = obj, propertyName = k, propertySchema = p,
       isPrimaryKey = Some (pk = Some k) \<rparr> = Inl e \<Longrightarrow>
   normalizePropertySchemas obj (ys @ (k, p) # zs) pk = Inl e"
  unfolding normalizePropertySchemas_def by (rule loop_first_error)

lemma normalizePropertySchemas_map_of:
  assumes "normalizePropertySchemas obj ps pk = Inr res" and "distinct (map fst ps)"
  shows "map_of res k = Some c \<longleftrightarrow>
         k \<noteq> ''__proto__'' \<and>
         (\<exists>p. map_of ps k = Some p \<and>
              normalizePropertySchema
                \<lparr> objectName = obj, propertyName = k, propertySchema = p,
                  isPrimaryKey = Some (pk = Some k) \<rparr> = Inr c)"
proof -
  have m: "(k, p) \<in> set ps \<longleftrightarrow> map_of ps k = Some p" for p
    using assms(2) by auto
  show ?thesis
    using loop_map_of [OF assms(1) [unfolded normalizePropertySchemas_def] assms(2), of k c]
    by (simp add: m)
qed

lemma normalizePropertySchemas_distinct:
  "normalizePropertySchemas obj ps pk = Inr res \<Longrightarrow> distinct (map fst res)"
  unfolding normalizePropertySchemas_def by (drule loop_distinct) simp_all

lemma normalizeObjectSchema_mapping:
  assumes "os_properties s = PropertiesObject ps"
  shows "normalizeObjectSchema flag (ObjectSchema s) =
     (if os_name s = [] then Inl (objectError [] '''name' must be specified.'')
      else if \<exists>k. os_primaryKey s = Some k \<and> k \<noteq> [] \<and> k \<notin> fst ` set ps
      then Inl (objectError (os_name s)
             (quoted (case os_primaryKey s of None \<Rightarrow> ''undefined'' | Some k \<Rightarrow> k) @
              '' is set as the primary key field but was not found in 'properties'.''))
      else if os_asymmetric s = Some True \<and> os_embedded s = Some True
      then Inl (objectError (os_name s) ''Cannot be both asymmetric and embedded.'')
      else
        (case normalizePropertySchemas (os_name s) ps (os_primaryKey s) of
           Inl e \<Rightarrow> Inl e
         | Inr props \<Rightarrow>
             Inr \<lparr> co_name = os_name s,
                   co_primaryKey = os_primaryKey s,
                   co_asymmetric = toBoolean (os_asymmetric s),
                   co_embedded = toBoolean (os_embedded s),
                   co_properties = props,
                   co_ctor = None \<rparr>))"
  using assms by (auto simp: Let_def truthy_def toBoolean_def split: option.splits)

text \<open>
  Claim C7, as stated, has \<^verbatim>\<open>normalizeObjectSchema\<close> raise an object-schema error
  whenever a declared primary key names a property that is not in the properties
  mapping. The source guards the test with \<^verbatim>\<open>primaryKey &&\<close>, so a primary key that
  is the empty string is not looked up: the definition below declares the primary key
  \<open>''\<close>, has no property of that name, and is normalized without error.
\<close>

theorem empty_primaryKey_counterexample:
  "os_primaryKey
     \<lparr> os_name = ''Person'', os_primaryKey = Some [], os_asymmetric = None, os_embedded = None,
       os_properties = PropertiesObject [(''age'', Shorthand ''int'')] \<rparr> = Some [] \<and>
   [] \<notin> fst ` set [(''age'', Shorthand ''int'')] \<and>
   normalizeObjectSchema False (ObjectSchema
     \<lparr> os_name = ''Person'', os_primaryKey = Some [], os_asymmetric = None, os_embedded = None,
       os_properties = PropertiesObject [(''age'', Shorthand ''int'')] \<rparr>)
   = Inr \<lparr> co_name = ''Person'', co_primaryKey = Some [], co_asymmetric = False,
           co_embedded = False,
           co_properties =
             [(''age'', \<lparr> cp_name = ''age'', cp_type = ''int'', cp_optional = False,
                 cp_indexed = False, cp_mapTo = ''age'', cp_objectType = None,
                 cp_property = None, cp_default = None \<rparr>)],
           co_ctor = None \<rparr>"
  by (simp add: normalizePropertySchemas_def eval_defs Let_def)

text \<open>
  Claim C7, amended. For a raw object definition in mapping form,
  \<^verbatim>\<open>normalizeObjectSchema\<close> raises an object-schema error when the name is empty, when a
  declared non-empty primary key names a property that is not in the properties mapping,
  or when \<open>asymmetric\<close> and \<open>embedded\<close> are both true. When none of these holds, the
  object-level checks pass and every property is normalized, in the order of the mapping.
  If every property normalizes, the result is the canonical schema with the name, the
  primary key and the two flags of the definition, and its properties hold under each
  key of the mapping exactly the canonical record of that property; the one exception is
  a key \<open>__proto__\<close>, whose record the assignment makes the prototype of the result
  instead of a property. Otherwise the result is the error of the first property that
  fails.
\<close>

theorem object_level_checks:
  assumes "os_properties s = PropertiesObject ps" and "distinct (map fst ps)"
  shows
    "(os_name s = [] \<or>
      (\<exists>k. os_primaryKey s = Some k \<and> k \<noteq> [] \<and> k \<notin> fst ` set ps) \<or>
      (os_asymmetric s = Some True \<and> os_embedded s = Some True)
        \<longrightarrow> (\<exists>msg n. normalizeObjectSchema flag (ObjectSchema s) =
                      Inl (ObjectSchemaParseError msg n))) \<and>
     (os_name s \<noteq> [] \<and>
      (\<forall>k. os_primaryKey s = Some k \<and> k \<noteq> [] \<longrightarrow> k \<in> fst ` set ps) \<and>
      \<not> (os_asymmetric s = Some True \<and> os_embedded s = Some True)
        \<longrightarrow>
        ((\<forall>(k, p) \<in> set ps.
            \<exists>c. normalizePropertySchema
                   \<lparr> objectName = os_name s, propertyName = k, propertySchema = p,
                     isPrimaryKey = Some (os_primaryKey s = Some k) \<rparr> = Inr c)
          \<longrightarrow> (\<exists>props.
                 normalizeObjectSchema flag (ObjectSchema s) =
                   Inr \<lparr> co_name = os_name s,
                         co_primaryKey = os_primaryKey s,
                         co_asymmetric = toBoolean (os_asymmetric s),
                         co_embedded = toBoolean (os_embedded s),
                         co_properties = props,
                         co_ctor = None \<rparr> \<and>
                 distinct (map fst props) \<and>
                 (\<forall>k c. map_of props k = Some c \<longleftrightarrow>
                    k \<noteq> ''__proto__'' \<and>
                    (\<exists>p. map_of ps k = Some p \<and>
                         normalizePropertySchema
                           \<lparr> objectName = os_name s, propertyName = k, propertySchema = p,
                             isPrimaryKey = Some (os_primaryKey s = Some k) \<rparr> = Inr c)))) \<and>
        (\<forall>ys k p zs e.
            ps = ys @ (k, p) # zs \<and>
            (\<forall>(k', p') \<in> set ys.
               \<exists>c. normalizePropertySchema
                      \<lparr> objectName = os_name s, propertyName = k', propertySchema = p',
                        isPrimaryKey = Some (os_primaryKey s = Some k') \<rparr> = Inr c) \<and>
            normalizePropertySchema
              \<lparr> objectName = os_name s, propertyName = k, propertySchema = p,
                isPrimaryKey = Some (os_primaryKey s = Some k) \<rparr> = Inl e
            \<longrightarrow> normalizeObjectSchema flag (ObjectSchema s) = Inl e))"
proof (intro conjI impI allI)
  assume "os_name s = [] \<or>
      (\<exists>k. os_primaryKey s = Some k \<and> k \<noteq> [] \<and> k \<notin> fst ` set ps) \<or>
      (os_asymmetric s = Some True \<and> os_embedded s = Some True)"
  then show "\<exists>msg n. normalizeObjectSchema flag (ObjectSchema s) =
                      Inl (ObjectSchemaParseError msg n)"
    unfolding normalizeObjectSchema_mapping [OF assms(1)] objectError_def by auto
next
  assume pass: "os_name s \<noteq> [] \<and>
      (\<forall>k. os_primaryKey s = Some k \<and> k \<noteq> [] \<longrightarrow> k \<in> fst ` set ps) \<and>
      \<not> (os_asymmetric s = Some True \<and> os_embedded s = Some True)"
  assume "\<forall>(k, p) \<in> set ps.
            \<exists>c. normalizePropertySchema
                   \<lparr> objectName = os_name s, propertyName = k, propertySchema = p,
                     isPrimaryKey = Some (os_primaryKey s = Some k) \<rparr> = Inr c"
  from normalizePropertySchemas_total [OF this] obtain props where
    n: "normalizePropertySchemas (os_name s) ps (os_primaryKey s) = Inr props"
    by blast
  have r: "normalizeObjectSchema flag (ObjectSchema s) =
        Inr \<lparr> co_name = os_name s,
              co_primaryKey = os_primaryKey s,
              co_asymmetric = toBoolean (os_asymmetric s),
              co_embedded = toBoolean (os_embedded s),
              co_properties = props,
              co_ctor = None \<rparr>"
    unfolding normalizeObjectSchema_mapping [OF assms(1)] using pass n by auto
  show "\<exists>props.
          normalizeObjectSchema flag (ObjectSchema s) =
            Inr \<lparr> co_name = os_name s,
                  co_primaryKey = os_primaryKey s,
                  co_asymmetric = toBoolean (os_asymmetric s),
                  co_embedded = toBoolean (os_embedded s),
                  co_properties = props,
                  co_ctor = None \<rparr> \<and>
          distinct (map fst props) \<and>
          (\<forall>k c. map_of props k = Some c \<longleftrightarrow>
             k \<noteq> ''__proto__'' \<and>
             (\<exists>p. map_of ps k = Some p \<and>
                  normalizePropertySchema
                    \<lparr> objectName = os_name s, propertyName = k, propertySchema = p,
                      isPrimaryKey = Some (os_primaryKey s = Some k) \<rparr> = Inr c))"
    using r normalizePropertySchemas_map_of [OF n assms(2)] normalizePropertySchemas_distinct [OF n]
    by blast
next
  fix ys k p zs e
  assume pass: "os_name s \<noteq> [] \<and>
      (\<forall>k. os_primaryKey s = Some k \<and> k \<noteq> [] \<longrightarrow> k \<in> fst ` set ps) \<and>
      \<not> (os_asymmetric s = Some True \<and> os_embedded s = Some True)"
  assume f: "ps = ys @ (k, p) # zs \<and>
            (\<forall>(k', p') \<in> set ys.
               \<exists>c. normalizePropertySchema
                      \<lparr> objectName = os_name s, propertyName = k', propertySchema = p',
                        isPrimaryKey = Some (os_primaryKey s = Some k') \<rparr> = Inr c) \<and>
            normalizePropertySchema
              \<lparr> objectName = os_name s, propertyName = k, propertySchema = p,
                isPrimaryKey = Some (os_primaryKey s = Some k) \<rparr> = Inl e"
  then have "normalizePropertySchemas (os_name s) ps (os_primaryKey s) = Inl e"
    using normalizePropertySchemas_first_error [of ys "os_name s" "os_primaryKey s" k p e zs]
    by simp
  then show "normalizeObjectSchema flag (ObjectSchema s) = Inl e"
    unfolding normalizeObjectSchema_mapping [OF assms(1)] using pass by auto
qed

theorem object_level_checks_witness:
  "(os_properties
      \<lparr> os_name = ''Person'', os_primaryKey = Some ''id'', os_asymmetric = None,
        os_embedded = None,
        os_properties = PropertiesObject [(''age'', Shorthand ''int'')] \<rparr>
    = PropertiesObject [(''age'', Shorthand ''int'')] \<and>
    distinct (map fst [(''age'', Shorthand ''int'')]) \<and>
    ''id'' \<notin> fst ` set [(''age'', Shorthand ''int'')] \<and>
    normalizeObjectSchema False (ObjectSchema
      \<lparr> os_name = ''Person'', os_primaryKey = Some ''id'', os_asymmetric = None,
        os_embedded = None,
        os_properties = PropertiesObject [(''age'', Shorthand ''int'')] \<rparr>)
    = Inl (ObjectSchemaParseError
        (quoted ''id'' @ '' is set as the primary key field but was not found in 'properties'.'')
        ''Person'')) \<and>
   (distinct (map fst [(''id'', Shorthand ''int''), (''pet'', Shorthand []),
                       (''owner'', Shorthand ''object'')]) \<and>
    normalizeObjectSchema False (ObjectSchema
      \<lparr> os_name = ''Person'', os_primaryKey = Some ''id'', os_asymmetric = None,
        os_embedded = None,
        os_properties = PropertiesObject
          [(''id'', Shorthand ''int''), (''pet'', Shorthand []),
           (''owner'', Shorthand ''object'')] \<rparr>)
    = Inl (PropertySchemaParseError ''The type must be specified.'' ''Person'' ''pet'')) \<and>
   (normalizeObjectSchema False (ObjectSchema
      \<lparr> os_name = ''Person'', os_primaryKey = Some ''id'', os_asymmetric = None,
        os_embedded = None,
        os_properties = PropertiesObject [(''id'', Shorthand ''int'')] \<rparr>)
    = Inr \<lparr> co_name = ''Person'', co_primaryKey = Some ''id'', co_asymmetric = False,
            co_embedded = False,
            co_properties =
              [(''id'', \<lparr> cp_name = ''id'', cp_type = ''int'', cp_optional = False,
                  cp_indexed = True, cp_mapTo = ''id'', cp_objectType = None,
                  cp_property = None, cp_default = None \<rparr>)],
            co_ctor = None \<rparr>)"
proof (intro conjI)
  let ?s = "\<lparr> os_name = ''Person'', os_primaryKey = Some ''id'', os_asymmetric = None,
       os_embedded = None,
       os_properties = PropertiesObject [(''age'', Shorthand ''int'')] \<rparr>"
  show a: "os_properties ?s = PropertiesObject [(''age'', Shorthand ''int'')]" by simp
  show d: "distinct (map fst [(''age'', Shorthand ''int'')])" by simp
  show b: "''id'' \<notin> fst ` set [(''age'', Shorthand ''int'')]" by simp
  from object_level_checks [OF a d, of False] b
  obtain msg n where e: "normalizeObjectSchema False (ObjectSchema ?s) =
      Inl (ObjectSchemaParseError msg n)"
    by (auto simp del: normalizeObjectSchema.simps)
  then have "msg = quoted ''id'' @
      '' is set as the primary key field but was not found in 'properties'.'' \<and> n = ''Person''"
    by (simp add: Let_def truthy_def objectError_def)
  with e show "normalizeObjectSchema False (ObjectSchema ?s) =
      Inl (ObjectSchemaParseError
        (quoted ''id'' @ '' is set as the primary key field but was not found in 'properties'.'')
        ''Person'')"
    by simp
next
  let ?ps = "[(''id'', Shorthand ''int''), (''pet'', Shorthand []),
              (''owner'', Shorthand ''object'')]"
  let ?s = "\<lparr> os_name = ''Person'', os_primaryKey = Some ''id'', os_asymmetric = None,
       os_embedded = None, os_properties = PropertiesObject ?ps \<rparr>"
  let ?e = "PropertySchemaParseError ''The type must be specified.'' ''Person'' ''pet''"
  have a: "os_properties ?s = PropertiesObject ?ps" by simp
  show d: "distinct (map fst ?ps)" by simp
  have pass: "os_name ?s \<noteq> [] \<and>
      (\<forall>k. os_primaryKey ?s = Some k \<and> k \<noteq> [] \<longrightarrow> k \<in> fst ` set ?ps) \<and>
      \<not> (os_asymmetric ?s = Some True \<and> os_embedded ?s = Some True)"
    by simp
  have ok: "\<forall>(k', p') \<in> set [(''id'', Shorthand ''int'')].
      \<exists>c. normalizePropertySchema
             \<lparr> objectName = os_name ?s, propertyName = k', propertySchema = p',
               isPrimaryKey = Some (os_primaryKey ?s = Some k') \<rparr> = Inr c"
    by (simp add: eval_defs)
  have bad: "normalizePropertySchema
             \<lparr> objectName = os_name ?s, propertyName = ''pet'', propertySchema = Shorthand [],
               isPrimaryKey = Some (os_primaryKey ?s = Some ''pet'') \<rparr> = Inl ?e"
    by (simp add: eval_defs)
  have split: "?ps = [(''id'', Shorthand ''int'')] @ (''pet'', Shorthand []) #
      [(''owner'', Shorthand ''object'')]"
    by simp
  note first = object_level_checks [OF a d, of False, THEN conjunct2, THEN mp, OF pass,
      THEN conjunct2, THEN spec, THEN spec, THEN spec, THEN spec, THEN spec, THEN mp]
  show "normalizeObjectSchema False (ObjectSchema ?s) = Inl ?e"
    by (rule first) (use split ok bad in blast)
next
  let ?ps = "[(''id'', Shorthand ''int'')]"
  let ?s = "\<lparr> os_name = ''Person'', os_primaryKey = Some ''id'', os_asymmetric = None,
       os_embedded = None, os_properties = PropertiesObject ?ps \<rparr>"
  let ?c = "\<lparr> cp_name = ''id'', cp_type = ''int'', cp_optional = False,
                  cp_indexed = True, cp_mapTo = ''id'', cp_objectType = None,
                  cp_property = None, cp_default = None \<rparr>"
  have a: "os_properties ?s = PropertiesObject ?ps" by simp
  have d: "distinct (map fst ?ps)" by simp
  have pass: "os_name ?s \<noteq> [] \<and>
      (\<forall>k. os_primaryKey ?s = Some k \<and> k \<noteq> [] \<longrightarrow> k \<in> fst ` set ?ps) \<and>
      \<not> (os_asymmetric ?s = Some True \<and> os_embedded ?s = Some True)"
    by simp
  have n: "normalizePropertySchema
             \<lparr> objectName = os_name ?s, propertyName = ''id'', propertySchema = Shorthand ''int'',
               isPrimaryKey = Some (os_primaryKey ?s = Some ''id'') \<rparr> = Inr ?c"
    by (simp add: eval_defs)
  then have ok: "\<forall>(k, p) \<in> set ?ps.
      \<exists>c. normalizePropertySchema
             \<lparr> objectName = os_name ?s, propertyName = k, propertySchema = p,
               isPrimaryKey = Some (os_primaryKey ?s = Some k) \<rparr> = Inr c"
    by simp
  from object_level_checks [OF a d, of False, THEN conjunct2, THEN mp, OF pass,
      THEN conjunct1, THEN mp, OF ok]
  obtain props where
    r: "normalizeObjectSchema False (ObjectSchema ?s) =
          Inr \<lparr> co_name = ''Person'', co_primaryKey = Some ''id'', co_asymmetric = False,
                co_embedded = False, co_properties = props, co_ctor = None \<rparr>"
    by (auto simp: toBoolean_def simp del: normalizeObjectSchema.simps)
  then have "props = [(''id'', ?c)]"
    by (simp add: normalizePropertySchemas_def eval_defs Let_def)
  with r show "normalizeObjectSchema False (ObjectSchema ?s) =
      Inr \<lparr> co_name = ''Person'', co_primaryKey = Some ''id'', co_asymmetric = False,
            co_embedded = False, co_properties = [(''id'', ?c)], co_ctor = None \<rparr>"
    by simp
qed

section \<open>The primary key\<close>






section \<open>Normalizing a canonical schema again\<close>

text \<open>
  Claim C8 says that a canonical schema, read back as a raw definition, normalizes to
  itself. The shorthand \<open>Dog??\<close> shows that the source does not do so: the shorthand
  parser strips one \<open>?\<close> and takes the rest, \<open>Dog?\<close>, for a user-defined type, so the
  canonical record has the object type \<open>Dog?\<close>; read again in object notation, that
  object type is refused by \<^verbatim>\<open>assertNotUsingShorthand\<close>, which takes the trailing
  \<open>?\<close> for a shorthand marker.
\<close>

theorem renormalization_rejected:
  "normalizeObjectSchema False (ObjectSchema
     \<lparr> os_name = ''Person'', os_primaryKey = None, os_asymmetric = None, os_embedded = None,
       os_properties = PropertiesObject [(''pet'', Shorthand ''Dog??'')] \<rparr>)
   = Inr \<lparr> co_name = ''Person'', co_primaryKey = None, co_asymmetric = False,
           co_embedded = False,
           co_properties =
             [(''pet'', \<lparr> cp_name = ''pet'', cp_type = ''object'', cp_optional = True,
                 cp_indexed = False, cp_mapTo = ''pet'', cp_objectType = Some ''Dog?'',
                 cp_property = None, cp_default = None \<rparr>)],
           co_ctor = None \<rparr> \<and>
   normalizeObjectSchema False (ObjectSchema (objectSchemaOfCanonical
     \<lparr> co_name = ''Person'', co_primaryKey = None, co_asymmetric = False,
       co_embedded = False,
       co_properties =
         [(''pet'', \<lparr> cp_name = ''pet'', cp_type = ''object'', cp_optional = True,
             cp_indexed = False, cp_mapTo = ''pet'', cp_objectType = Some ''Dog?'',
             cp_property = None, cp_default = None \<rparr>)],
       co_ctor = None \<rparr>))
   = Inl (PropertySchemaParseError
       (''Cannot use shorthand '' @ quoted ''?'' @
        '' in 'type' or 'objectType' when defining property objects.'')
       ''Person'' ''pet'')"
  by (simp add: normalizePropertySchemas_def objectSchemaOfCanonical_def
        propertySchemaOfCanonical_def eval_defs Let_def)

text \<open>
  The rest of this section shows how far a second normalization agrees with the first:
  for a definition in mapping form that has no key \<open>__proto__\<close> and whose canonical
  object types do not end with \<open>?\<close>, the canonical schema normalizes to itself. First,
  when a run in object notation succeeds, and what a canonical record must satisfy to be
  its own normal form.
\<close>

lemma assertNotUsingShorthand_Inr_iff:
  "assertNotUsingShorthand x i = Inr u \<longleftrightarrow>
   (\<forall>s. x = Some s \<longrightarrow> \<not> hasCollectionSuffix s \<and> \<not> endsWith s ''?'')"
proof (cases x)
  case None then show ?thesis by (simp add: assertNotUsingShorthand_def)
next
  case (Some s)
  have "hasCollectionSuffix s \<Longrightarrow> s \<noteq> []" using hasCollectionSuffix_length [of s] by auto
  then show ?thesis using Some
    by (auto simp: assertNotUsingShorthand_def truthy_def Let_def)
qed

lemma objectCategoryChecks_Inr_iff:
  "objectCategoryChecks i = Inr u \<longleftrightarrow>
   (if isPrimitive (Some (ps_type (propertySchema i)))
    then ps_objectType (propertySchema i) = None
    else if isCollection (Some (ps_type (propertySchema i)))
    then isPrimitive (ps_objectType (propertySchema i)) \<or>
         isUserDefined (ps_objectType (propertySchema i))
    else if ps_type (propertySchema i) = ''object''
    then isUserDefined (ps_objectType (propertySchema i))
    else ps_type (propertySchema i) = ''linkingObjects'' \<and>
         isUserDefined (ps_objectType (propertySchema i)) \<and>
         truthy (ps_property (propertySchema i)))"
  unfolding objectCategoryChecks_def Let_def by simp

lemma normalizePropertySchemaObject_InrI:
  assumes "ps_type (propertySchema info) \<noteq> []"
    and "assertNotUsingShorthand (Some (ps_type (propertySchema info))) info = Inr ()"
    and "assertNotUsingShorthand (ps_objectType (propertySchema info)) info = Inr ()"
    and "objectCategoryChecks info = Inr ()"
    and "ps_type (propertySchema info) \<noteq> ''linkingObjects'' \<longrightarrow> ps_property (propertySchema info) = None"
    and "objectImplicitOptional info = Inr optional"
    and "\<not> (toBoolean (isPrimaryKey info) \<and> ps_indexed (propertySchema info) = Some False)"
  shows "normalizePropertySchemaObject info =
         Inr \<lparr> cp_name = propertyName info,
               cp_type = ps_type (propertySchema info),
               cp_optional = toBoolean optional,
               cp_indexed = toBoolean (if toBoolean (isPrimaryKey info) then Some True
                                       else ps_indexed (propertySchema info)),
               cp_mapTo = (case ps_mapTo (propertySchema info) of
                             None \<Rightarrow> propertyName info
                           | Some m \<Rightarrow> if m \<noteq> [] then m else propertyName info),
               cp_objectType = ps_objectType (propertySchema info),
               cp_property = ps_property (propertySchema info),
               cp_default = ps_default (propertySchema info) \<rparr>"
  using assms unfolding normalizePropertySchemaObject_def Let_def by auto

lemma objectImplicitOptional_supplied:
  assumes "ps_optional (propertySchema i) = Some b"
      and "optionalIsImplicitlyTrue (ps_type (propertySchema i)) (ps_objectType (propertySchema i))
             \<longrightarrow> b"
      and "optionalIsImplicitlyFalse (ps_type (propertySchema i)) (ps_objectType (propertySchema i))
             \<longrightarrow> \<not> b"
  shows "objectImplicitOptional i = Inr (Some b)"
  using assms
    implicit_exclusive [of "ps_type (propertySchema i)" "ps_objectType (propertySchema i)"]
  unfolding objectImplicitOptional_def Let_def by auto

lemma canonical_fixpoint:
  fixes c :: canonical_property_schema
  assumes name: "cp_name c = pn"
    and ty: "cp_type c \<noteq> []" "\<not> hasCollectionSuffix (cp_type c)" "\<not> endsWith (cp_type c) ''?''"
    and ot: "\<forall>s. cp_objectType c = Some s \<longrightarrow> \<not> hasCollectionSuffix s \<and> \<not> endsWith s ''?''"
    and cat: "if isPrimitive (Some (cp_type c)) then cp_objectType c = None
              else if isCollection (Some (cp_type c))
              then isPrimitive (cp_objectType c) \<or> isUserDefined (cp_objectType c)
              else if cp_type c = ''object'' then isUserDefined (cp_objectType c)
              else cp_type c = ''linkingObjects'' \<and> isUserDefined (cp_objectType c) \<and>
                   truthy (cp_property c)"
    and pr: "cp_type c \<noteq> ''linkingObjects'' \<longrightarrow> cp_property c = None"
    and opt: "optionalIsImplicitlyTrue (cp_type c) (cp_objectType c) \<longrightarrow> cp_optional c"
             "optionalIsImplicitlyFalse (cp_type c) (cp_objectType c) \<longrightarrow> \<not> cp_optional c"
    and idx: "toBoolean pk \<longrightarrow> cp_indexed c"
    and mapTo: "cp_mapTo c = [] \<longrightarrow> pn = []"
  shows "normalizePropertySchemaObject
           \<lparr> objectName = obj, propertyName = pn,
             propertySchema = propertySchemaOfCanonical c, isPrimaryKey = pk \<rparr> = Inr c"
proof -
  let ?i = "\<lparr> objectName = obj, propertyName = pn,
             propertySchema = propertySchemaOfCanonical c, isPrimaryKey = pk \<rparr>"
  have sel: "ps_type (propertySchema ?i) = cp_type c"
    "ps_objectType (propertySchema ?i) = cp_objectType c"
    "ps_property (propertySchema ?i) = cp_property c"
    "ps_optional (propertySchema ?i) = Some (cp_optional c)"
    "ps_indexed (propertySchema ?i) = Some (cp_indexed c)"
    "ps_mapTo (propertySchema ?i) = Some (cp_mapTo c)"
    "ps_default (propertySchema ?i) = cp_default c"
    "propertyName ?i = pn" "isPrimaryKey ?i = pk"
    by (simp_all add: propertySchemaOfCanonical_def)
  have 1: "ps_type (propertySchema ?i) \<noteq> []" using ty(1) sel by simp
  have 2: "assertNotUsingShorthand (Some (ps_type (propertySchema ?i))) ?i = Inr ()"
    unfolding assertNotUsingShorthand_Inr_iff sel using ty by simp
  have 3: "assertNotUsingShorthand (ps_objectType (propertySchema ?i)) ?i = Inr ()"
    unfolding assertNotUsingShorthand_Inr_iff sel using ot by simp
  have 4: "objectCategoryChecks ?i = Inr ()"
    unfolding objectCategoryChecks_Inr_iff sel using cat .
  have 5: "ps_type (propertySchema ?i) \<noteq> ''linkingObjects'' \<longrightarrow>
           ps_property (propertySchema ?i) = None"
    unfolding sel using pr .
  have 6: "objectImplicitOptional ?i = Inr (Some (cp_optional c))"
    by (rule objectImplicitOptional_supplied) (use opt in \<open>simp_all only: sel\<close>)
  have 7: "\<not> (toBoolean (isPrimaryKey ?i) \<and> ps_indexed (propertySchema ?i) = Some False)"
    unfolding sel using idx by simp
  have "normalizePropertySchemaObject ?i =
        Inr \<lparr> cp_name = pn, cp_type = cp_type c,
              cp_optional = toBoolean (Some (cp_optional c)),
              cp_indexed = toBoolean (if toBoolean pk then Some True else Some (cp_indexed c)),
              cp_mapTo = (case Some (cp_mapTo c) of
                            None \<Rightarrow> pn
                          | Some m \<Rightarrow> if m \<noteq> [] then m else pn),
              cp_objectType = cp_objectType c,
              cp_property = cp_property c,
              cp_default = cp_default c \<rparr>"
    using normalizePropertySchemaObject_InrI [OF 1 2 3 4 5 6 7] unfolding sel .
  also have "\<dots> = Inr c"
    using name idx mapTo by (cases c) (auto simp: toBoolean_def)
  finally show ?thesis .
qed

lemma explicit_canonical_fixpoint:
  assumes "normalizePropertySchemaObject i = Inr c"
  shows "normalizePropertySchemaObject
           \<lparr> objectName = objectName i, propertyName = propertyName i,
             propertySchema = propertySchemaOfCanonical c, isPrimaryKey = isPrimaryKey i \<rparr> = Inr c"
proof -
  note d = normalizePropertySchemaObject_InrD [OF assms]
  from d(7) obtain optional where
    io: "objectImplicitOptional i = Inr optional" and
    c: "cp_name c = propertyName i" "cp_type c = ps_type (propertySchema i)"
       "cp_optional c = toBoolean optional"
       "cp_indexed c = toBoolean (if toBoolean (isPrimaryKey i) then Some True
                                  else ps_indexed (propertySchema i))"
       "cp_mapTo c = (case ps_mapTo (propertySchema i) of
                        None \<Rightarrow> propertyName i
                      | Some m \<Rightarrow> if m \<noteq> [] then m else propertyName i)"
       "cp_objectType c = ps_objectType (propertySchema i)"
       "cp_property c = ps_property (propertySchema i)"
    by auto
  show ?thesis
  proof (rule canonical_fixpoint)
    show "cp_name c = propertyName i" by (rule c(1))
    show "cp_type c \<noteq> []" using d(1) c(2) by simp
    show "\<not> hasCollectionSuffix (cp_type c)" "\<not> endsWith (cp_type c) ''?''"
      using d(2) unfolding assertNotUsingShorthand_Inr_iff c(2) by simp_all
    show "\<forall>s. cp_objectType c = Some s \<longrightarrow> \<not> hasCollectionSuffix s \<and> \<not> endsWith s ''?''"
      using d(3) unfolding assertNotUsingShorthand_Inr_iff c(6) by simp
    show "if isPrimitive (Some (cp_type c)) then cp_objectType c = None
          else if isCollection (Some (cp_type c))
          then isPrimitive (cp_objectType c) \<or> isUserDefined (cp_objectType c)
          else if cp_type c = ''object'' then isUserDefined (cp_objectType c)
          else cp_type c = ''linkingObjects'' \<and> isUserDefined (cp_objectType c) \<and>
               truthy (cp_property c)"
      using d(4) unfolding objectCategoryChecks_Inr_iff c(2,6,7) .
    show "cp_type c \<noteq> ''linkingObjects'' \<longrightarrow> cp_property c = None"
      using d(5) unfolding c(2,7) by simp
    show "optionalIsImplicitlyTrue (cp_type c) (cp_objectType c) \<longrightarrow> cp_optional c"
         "optionalIsImplicitlyFalse (cp_type c) (cp_objectType c) \<longrightarrow> \<not> cp_optional c"
      using objectImplicitOptional_forced [OF io] unfolding c(2,3,6) by simp_all
    show "toBoolean (isPrimaryKey i) \<longrightarrow> cp_indexed c"
      unfolding c(4) by (simp add: toBoolean_def)
    show "cp_mapTo c = [] \<longrightarrow> propertyName i = []"
      unfolding c(5) by (simp split: option.splits if_splits)
  qed
qed

lemma shorthandCollectionSuffix_InrD:
  assumes "shorthandCollectionSuffix i s = Inr (t, rest)" and "s \<noteq> []"
  shows "rest \<noteq> []" and "\<not> hasCollectionSuffix rest" and "t = [] \<or> t \<in> set COLLECTION_TYPES"
proof -
  show "rest \<noteq> []" "\<not> hasCollectionSuffix rest"
    using assms unfolding shorthandCollectionSuffix_def Let_def
    by (auto split: if_splits)
  show "t = [] \<or> t \<in> set COLLECTION_TYPES"
  proof (cases "hasCollectionSuffix s")
    case False
    with assms(1) show ?thesis unfolding shorthandCollectionSuffix_def by simp
  next
    case True
    then have "drop (length s - 2) s \<in> {''[]'', ''{}'', ''<>''}"
      by (simp add: hasCollectionSuffix_iff)
    moreover from True assms(1) have
      "t = (case map_of COLLECTION_SHORTHAND_TO_NAME (drop (length s - 2) s) of
              Some n \<Rightarrow> n | None \<Rightarrow> [])"
      unfolding shorthandCollectionSuffix_def Let_def substring1_last2
      by (auto split: if_splits)
    ultimately show ?thesis
      by (auto simp: COLLECTION_SHORTHAND_TO_NAME_def COLLECTION_TYPES_def)
  qed
qed

lemma shorthandOptionalMarker_InrD:
  assumes "shorthandOptionalMarker i rest = Inr (optional, element)"
      and "rest \<noteq> []" and "\<not> hasCollectionSuffix rest"
  shows "element \<noteq> []" and "\<not> hasCollectionSuffix element"
  using assms unfolding shorthandOptionalMarker_def Let_def
  by (auto split: if_splits)

lemma shorthandClassify_InrD:
  assumes "shorthandClassify i t element = Inr (t', objectType)"
      and "element \<noteq> []" and "t = [] \<or> t \<in> set COLLECTION_TYPES"
  shows "t' \<in> set PRIMITIVE_TYPES \<union> set COLLECTION_TYPES \<union> {''object''}"
    and "objectType = None \<or> objectType = Some element"
    and "if isPrimitive (Some t') then objectType = None
         else if isCollection (Some t')
         then isPrimitive objectType \<or> isUserDefined objectType
         else t' = ''object'' \<and> isUserDefined objectType"
proof -
  have nc: "\<not> isCollection (Some [])" by (simp add: isCollection_def COLLECTION_TYPES_def)
  have cp: "x \<in> set COLLECTION_TYPES \<Longrightarrow> \<not> isPrimitive (Some x)" for x
    by (auto simp: isPrimitive_def COLLECTION_TYPES_def PRIMITIVE_TYPES_def)
  have op: "\<not> isPrimitive (Some ''object'')" "\<not> isCollection (Some ''object'')"
    by (simp_all add: isPrimitive_def isCollection_def COLLECTION_TYPES_def PRIMITIVE_TYPES_def)
  have ud: "isUserDefined (Some element)"
    if "\<not> isPrimitive (Some element)" "\<not> isCollection (Some element)"
       "element \<noteq> ''object''" "element \<noteq> ''linkingObjects''"
    using that assms(2) by (simp add: isUserDefined_def truthy_def)
  show "t' \<in> set PRIMITIVE_TYPES \<union> set COLLECTION_TYPES \<union> {''object''}"
    using assms(1,3) unfolding shorthandClassify_def
    by (auto simp: isPrimitive_def isCollection_def split: if_splits)
  show "objectType = None \<or> objectType = Some element"
    using assms(1) unfolding shorthandClassify_def by (auto split: if_splits)
  show "if isPrimitive (Some t') then objectType = None
         else if isCollection (Some t')
         then isPrimitive objectType \<or> isUserDefined objectType
         else t' = ''object'' \<and> isUserDefined objectType"
  proof (cases "isPrimitive (Some element)")
    case True
    show ?thesis
    proof (cases "isCollection (Some t)")
      case True
      with \<open>isPrimitive (Some element)\<close> assms(1) have "t' = t" "objectType = Some element"
        unfolding shorthandClassify_def by simp_all
      with True \<open>isPrimitive (Some element)\<close> cp [of t] show ?thesis
        by (auto simp: isCollection_def)
    next
      case False
      with \<open>isPrimitive (Some element)\<close> assms(1) have "t' = element" "objectType = None"
        unfolding shorthandClassify_def by simp_all
      with \<open>isPrimitive (Some element)\<close> show ?thesis by simp
    qed
  next
    case False
    with assms(1) have e: "\<not> isCollection (Some element)" "element \<noteq> ''object''"
        "element \<noteq> ''linkingObjects''" and
      r: "t' = (if \<not> isCollection (Some t) then ''object'' else t)" "objectType = Some element"
      unfolding shorthandClassify_def by (auto split: if_splits)
    from ud [OF False e] have u: "isUserDefined objectType" using r(2) by simp
    show ?thesis
    proof (cases "isCollection (Some t)")
      case True
      then have "t' = t" using r(1) by simp
      with True cp [of t] u show ?thesis by (auto simp: isCollection_def)
    next
      case False
      then have "t' = ''object''" using r(1) by simp
      with op u show ?thesis by simp
    qed
  qed
qed

lemma keyword_types_plain:
  assumes "t \<in> set PRIMITIVE_TYPES \<union> set COLLECTION_TYPES \<union> {''object''}"
  shows "t \<noteq> []" and "\<not> hasCollectionSuffix t" and "\<not> endsWith t ''?''"
    and "t \<noteq> ''linkingObjects''"
  using assms
  by (auto simp: PRIMITIVE_TYPES_def COLLECTION_TYPES_def hasCollectionSuffix_iff endsWith_qmark)

lemma shorthand_canonical_fixpoint:
  assumes n: "normalizePropertySchemaShorthand i = Inr c"
      and m: "\<forall>s. cp_objectType c = Some s \<longrightarrow> \<not> endsWith s ''?''"
  shows "normalizePropertySchemaObject
           \<lparr> objectName = objectName i, propertyName = propertyName i,
             propertySchema = propertySchemaOfCanonical c, isPrimaryKey = isPrimaryKey i \<rparr> = Inr c"
proof -
  from normalizePropertySchemaShorthand_InrD [OF n]
  obtain t rest optional element t' objectType optional' where
    s: "propertySchema i \<noteq> []" and
    cs: "shorthandCollectionSuffix i (propertySchema i) = Inr (t, rest)" and
    om: "shorthandOptionalMarker i rest = Inr (optional, element)" and
    cl: "shorthandClassify i t element = Inr (t', objectType)" and
    io: "shorthandImplicitOptional i t' objectType optional = Inr optional'" and
    c: "cp_name c = propertyName i" "cp_type c = t'" "cp_optional c = toBoolean optional'"
       "cp_indexed c = toBoolean (isPrimaryKey i)" "cp_mapTo c = propertyName i"
       "cp_objectType c = objectType" "cp_property c = None"
    by auto
  note a = shorthandCollectionSuffix_InrD [OF cs s]
  note b = shorthandOptionalMarker_InrD [OF om a(1,2)]
  note d = shorthandClassify_InrD [OF cl b(1) a(3)]
  note k = keyword_types_plain [OF d(1)]
  show ?thesis
  proof (rule canonical_fixpoint)
    show "cp_name c = propertyName i" by (rule c(1))
    show "cp_type c \<noteq> []" "\<not> hasCollectionSuffix (cp_type c)" "\<not> endsWith (cp_type c) ''?''"
      using k unfolding c(2) by simp_all
    show "\<forall>s. cp_objectType c = Some s \<longrightarrow> \<not> hasCollectionSuffix s \<and> \<not> endsWith s ''?''"
      using m d(2) b(2) unfolding c(6) by auto
    show "if isPrimitive (Some (cp_type c)) then cp_objectType c = None
          else if isCollection (Some (cp_type c))
          then isPrimitive (cp_objectType c) \<or> isUserDefined (cp_objectType c)
          else if cp_type c = ''object'' then isUserDefined (cp_objectType c)
          else cp_type c = ''linkingObjects'' \<and> isUserDefined (cp_objectType c) \<and>
               truthy (cp_property c)"
      using d(3) unfolding c(2,6) by (simp split: if_splits)
    show "cp_type c \<noteq> ''linkingObjects'' \<longrightarrow> cp_property c = None"
      using c(7) by simp
    show "optionalIsImplicitlyTrue (cp_type c) (cp_objectType c) \<longrightarrow> cp_optional c"
         "optionalIsImplicitlyFalse (cp_type c) (cp_objectType c) \<longrightarrow> \<not> cp_optional c"
      using shorthandImplicitOptional_forced [OF io] unfolding c(2,3,6) by simp_all
    show "toBoolean (isPrimaryKey i) \<longrightarrow> cp_indexed c"
      unfolding c(4) by simp
    show "cp_mapTo c = [] \<longrightarrow> propertyName i = []"
      unfolding c(5) by simp
  qed
qed

lemma property_canonical_fixpoint:
  assumes n: "normalizePropertySchema
                \<lparr> objectName = obj, propertyName = pn, propertySchema = p, isPrimaryKey = pk \<rparr>
              = Inr c"
      and m: "\<forall>s. cp_objectType c = Some s \<longrightarrow> \<not> endsWith s ''?''"
  shows "normalizePropertySchema
           \<lparr> objectName = obj, propertyName = pn,
             propertySchema = Explicit (propertySchemaOfCanonical c), isPrimaryKey = pk \<rparr>
         = Inr c"
proof (cases p)
  case (Shorthand str)
  with n have "normalizePropertySchemaShorthand
      \<lparr> objectName = obj, propertyName = pn, propertySchema = str, isPrimaryKey = pk \<rparr> = Inr c"
    by (simp add: normalizePropertySchema_def)
  from shorthand_canonical_fixpoint [OF this m] show ?thesis
    by (simp add: normalizePropertySchema_def)
next
  case (Explicit q)
  with n have "normalizePropertySchemaObject
      \<lparr> objectName = obj, propertyName = pn, propertySchema = q, isPrimaryKey = pk \<rparr> = Inr c"
    by (simp add: normalizePropertySchema_def)
  from explicit_canonical_fixpoint [OF this] show ?thesis
    by (simp add: normalizePropertySchema_def)
qed

text \<open>
  The keys of a result are in the order of enumeration, so that assigning them again in
  that order appends each one. Array indices are compared by their numeric values, which
  differ for different indices.
\<close>

lemma digitValue_less: "isDigit c \<Longrightarrow> digitValue c < 10"
  by (auto simp: isDigit_def digitValue_def)

lemma digitValue_zero: "isDigit c \<Longrightarrow> digitValue c = 0 \<Longrightarrow> c = CHR ''0''"
  by (auto simp: isDigit_def digitValue_def)

lemma digitValue_inj: "isDigit c \<Longrightarrow> isDigit d \<Longrightarrow> digitValue c = digitValue d \<Longrightarrow> c = d"
  by (auto simp: isDigit_def digitValue_def)

lemma indexValue_snoc: "indexValue (s @ [c]) = 10 * indexValue s + digitValue c"
  by (simp add: indexValue_def)

lemma indexValue_pos:
  "list_all isDigit s \<Longrightarrow> s \<noteq> [] \<Longrightarrow> hd s \<noteq> CHR ''0'' \<Longrightarrow> 0 < indexValue s"
proof (induction s rule: rev_induct)
  case Nil then show ?case by simp
next
  case (snoc c xs)
  show ?case
  proof (cases "xs = []")
    case True
    with snoc.prems have "isDigit c" "c \<noteq> CHR ''0''" by simp_all
    then have "digitValue c \<noteq> 0" using digitValue_zero by blast
    with True show ?thesis by (simp add: indexValue_def)
  next
    case False
    with snoc.prems have "list_all isDigit xs" "hd xs \<noteq> CHR ''0''" by simp_all
    from snoc.IH [OF this(1) False this(2)] show ?thesis by (simp add: indexValue_snoc)
  qed
qed

lemma indexValue_inj_aux:
  assumes "list_all isDigit s" "s \<noteq> []" "if hd s = CHR ''0'' then s = ''0'' else True"
      and "list_all isDigit t" "t \<noteq> []" "if hd t = CHR ''0'' then t = ''0'' else True"
      and "indexValue s = indexValue t"
  shows "s = t"
  using assms
proof (induction s arbitrary: t rule: rev_induct)
  case Nil then show ?case by simp
next
  case (snoc c xs)
  from snoc.prems(5) obtain ys d where t: "t = ys @ [d]" by (cases t rule: rev_cases) auto
  from snoc.prems(1) have dc: "isDigit c" and dxs: "list_all isDigit xs" by simp_all
  from snoc.prems(4) t have dd: "isDigit d" and dys: "list_all isDigit ys" by simp_all
  from snoc.prems(7) t have
    "10 * indexValue xs + digitValue c = 10 * indexValue ys + digitValue d"
    by (simp add: indexValue_snoc)
  with digitValue_less [OF dc] digitValue_less [OF dd]
  have v: "indexValue xs = indexValue ys" and "digitValue c = digitValue d" by arith+
  then have cd: "c = d" using digitValue_inj [OF dc dd] by simp
  have hx: "hd xs \<noteq> CHR ''0''" if "xs \<noteq> []"
    using that snoc.prems(3) by (cases xs) (auto split: if_splits)
  have hy: "hd ys \<noteq> CHR ''0''" if "ys \<noteq> []"
    using that snoc.prems(6) t by (cases ys) (auto split: if_splits)
  have "xs = ys"
  proof (cases "xs = []")
    case True
    then have "indexValue ys = 0" using v by (simp add: indexValue_def)
    then have "ys = []" using indexValue_pos [OF dys _ hy] by fastforce
    with True show ?thesis by simp
  next
    case False
    from indexValue_pos [OF dxs False hx [OF False]] v have "0 < indexValue ys" by simp
    then have ny: "ys \<noteq> []" by (auto simp: indexValue_def)
    show ?thesis
      by (rule snoc.IH [OF dxs False _ dys ny _ v]) (use hx [OF False] hy [OF ny] in simp_all)
  qed
  with cd t show ?case by simp
qed

lemma indexValue_inj:
  "isArrayIndex a \<Longrightarrow> isArrayIndex b \<Longrightarrow> indexValue a = indexValue b \<Longrightarrow> a = b"
  unfolding isArrayIndex_def by (intro indexValue_inj_aux) simp_all

lemma insertIndex_append:
  "enumerationOrder (map fst obj @ [k]) \<Longrightarrow> isArrayIndex k \<Longrightarrow>
   insertIndex k v obj = obj @ [(k, v)]"
  by (induction obj) (auto simp: enumerationOrder_def sorted_wrt_append keyBefore_def)

lemma assignProperty_append:
  assumes "k \<noteq> ''__proto__''" and "k \<notin> fst ` set obj"
      and "enumerationOrder (map fst obj @ [k])"
  shows "assignProperty k v obj = obj @ [(k, v)]"
  using assms insertIndex_append [OF assms(3), of v]
  by (auto simp: assignProperty_def defineProperty_def)

lemma enumerationOrder_insertIndex:
  assumes "isArrayIndex k" and "k \<notin> fst ` set obj" and "enumerationOrder (map fst obj)"
  shows "enumerationOrder (map fst (insertIndex k v obj))"
  using assms(2,3)
proof (induction obj)
  case Nil then show ?case by (simp add: enumerationOrder_def)
next
  case (Cons x obj)
  obtain k' v' where x: "x = (k', v')" by (cases x)
  from Cons.prems x have ne: "k' \<noteq> k" and nk: "k \<notin> fst ` set obj"
    and all: "\<forall>y \<in> fst ` set obj. keyBefore k' y"
    and so: "enumerationOrder (map fst obj)"
    by (auto simp: enumerationOrder_def)
  note ih = Cons.IH [OF nk so]
  show ?case
  proof (cases "isArrayIndex k' \<and> indexValue k' < indexValue k")
    case True
    then have "keyBefore k' k" by (simp add: keyBefore_def)
    with all have "\<forall>y \<in> fst ` set (insertIndex k v obj). keyBefore k' y"
      by (auto simp: set_insertIndex)
    with ih True x show ?thesis by (auto simp: enumerationOrder_def)
  next
    case False
    have kk': "keyBefore k k'"
    proof (cases "isArrayIndex k'")
      case True
      with False have "indexValue k \<le> indexValue k'" by simp
      moreover have "indexValue k \<noteq> indexValue k'"
        using indexValue_inj [OF assms(1) True] ne by blast
      ultimately show ?thesis using True assms(1) by (simp add: keyBefore_def)
    next
      case False then show ?thesis by (simp add: keyBefore_def)
    qed
    have rest: "keyBefore k y" if y: "y \<in> fst ` set obj" for y
    proof (cases "isArrayIndex y")
      case True
      from all y have "keyBefore k' y" by blast
      with True have k'i: "isArrayIndex k'" and lt: "indexValue k' < indexValue y"
        by (simp_all add: keyBefore_def)
      from kk' k'i have "indexValue k < indexValue k'" by (simp add: keyBefore_def)
      with lt True assms(1) show ?thesis by (simp add: keyBefore_def)
    next
      case False then show ?thesis by (simp add: keyBefore_def)
    qed
    from False x kk' rest Cons.prems(2) show ?thesis
      by (auto simp: enumerationOrder_def)
  qed
qed

lemma enumerationOrder_assignProperty:
  assumes "enumerationOrder (map fst obj)"
  shows "enumerationOrder (map fst (assignProperty k v obj))"
proof -
  have "enumerationOrder (map fst (defineProperty k v obj))"
  proof (cases "k \<in> fst ` set obj")
    case True
    then show ?thesis using assms by (simp add: defineProperty_def update_keys)
  next
    case False
    show ?thesis
    proof (cases "isArrayIndex k")
      case True
      with False enumerationOrder_insertIndex [OF True False assms] show ?thesis
        by (simp add: defineProperty_def)
    next
      case nidx: False
      with False assms show ?thesis
        by (auto simp: defineProperty_def enumerationOrder_def sorted_wrt_append keyBefore_def)
    qed
  qed
  then show ?thesis using assms by (simp add: assignProperty_def)
qed

lemma keys_assignProperty:
  "fst ` set (assignProperty k v obj) =
   (if k = ''__proto__'' then fst ` set obj else insert k (fst ` set obj))"
proof -
  have "dom (map_of (assignProperty k v obj)) =
        (if k = ''__proto__'' then dom (map_of obj) else insert k (dom (map_of obj)))"
    by (simp add: map_of_assignProperty)
  then show ?thesis by (simp add: dom_map_of_conv_image_fst)
qed

lemma loop_keys:
  "normalizePropertySchemasLoop obj pk ps acc = Inr res \<Longrightarrow>
   fst ` set res = fst ` set acc \<union> (fst ` set ps - {''__proto__''})"
proof (induction ps arbitrary: acc)
  case Nil then show ?case by simp
next
  case (Cons x ps)
  obtain k p where x: "x = (k, p)" by (cases x)
  from Cons.prems x obtain c where
    r: "normalizePropertySchemasLoop obj pk ps (assignProperty k c acc) = Inr res"
    by (auto split: sum.splits)
  from Cons.IH [OF r] show ?case by (auto simp: x keys_assignProperty split: if_splits)
qed

lemma loop_enumerationOrder:
  "normalizePropertySchemasLoop obj pk ps acc = Inr res \<Longrightarrow>
   enumerationOrder (map fst acc) \<Longrightarrow> enumerationOrder (map fst res)"
proof (induction ps arbitrary: acc)
  case Nil then show ?case by simp
next
  case (Cons x ps)
  obtain k p where x: "x = (k, p)" by (cases x)
  from Cons.prems(1) x obtain c where
    r: "normalizePropertySchemasLoop obj pk ps (assignProperty k c acc) = Inr res"
    by (auto split: sum.splits)
  from Cons.IH [OF r enumerationOrder_assignProperty [OF Cons.prems(2)]] show ?case .
qed

lemma loop_fixpoints:
  assumes "\<forall>(k, c) \<in> set xs.
             normalizePropertySchema
               \<lparr> objectName = obj, propertyName = k,
                 propertySchema = Explicit (propertySchemaOfCanonical c),
                 isPrimaryKey = Some (pk = Some k) \<rparr> = Inr c"
      and "distinct (map fst (acc @ xs))"
      and "enumerationOrder (map fst (acc @ xs))"
      and "''__proto__'' \<notin> fst ` set xs"
  shows "normalizePropertySchemasLoop obj pk
           (map (\<lambda>(k, c). (k, Explicit (propertySchemaOfCanonical c))) xs) acc
         = Inr (acc @ xs)"
  using assms
proof (induction xs arbitrary: acc)
  case Nil then show ?case by simp
next
  case (Cons x xs)
  obtain k c where x: "x = (k, c)" by (cases x)
  from Cons.prems(1) x have
    n: "normalizePropertySchema
               \<lparr> objectName = obj, propertyName = k,
                 propertySchema = Explicit (propertySchemaOfCanonical c),
                 isPrimaryKey = Some (pk = Some k) \<rparr> = Inr c"
    by simp
  from Cons.prems(2) x have fresh: "k \<notin> fst ` set acc" by auto
  from Cons.prems(4) x have np: "k \<noteq> ''__proto__''" by auto
  from Cons.prems(3) x have "enumerationOrder (map fst acc @ [k])"
    by (auto simp: enumerationOrder_def sorted_wrt_append)
  from assignProperty_append [OF np fresh this]
  have u: "assignProperty k c acc = acc @ [(k, c)]" .
  have "normalizePropertySchemasLoop obj pk
           (map (\<lambda>(k, c). (k, Explicit (propertySchemaOfCanonical c))) xs) (acc @ [(k, c)])
         = Inr ((acc @ [(k, c)]) @ xs)"
  proof (rule Cons.IH)
    show "\<forall>(k, c) \<in> set xs.
             normalizePropertySchema
               \<lparr> objectName = obj, propertyName = k,
                 propertySchema = Explicit (propertySchemaOfCanonical c),
                 isPrimaryKey = Some (pk = Some k) \<rparr> = Inr c"
      using Cons.prems(1) by simp
    show "distinct (map fst ((acc @ [(k, c)]) @ xs))" using Cons.prems(2) x by simp
    show "enumerationOrder (map fst ((acc @ [(k, c)]) @ xs))" using Cons.prems(3) x by simp
    show "''__proto__'' \<notin> fst ` set xs" using Cons.prems(4) by simp
  qed
  then show ?case using n u x by simp
qed

text \<open>
  Idempotence for every raw object definition in mapping form without a key
  \<open>__proto__\<close> whose canonical object types carry no trailing \<open>?\<close>.
\<close>

lemma renormalization_idempotent:
  assumes n: "normalizeObjectSchema flag (ObjectSchema s) = Inr C"
      and po: "os_properties s = PropertiesObject ps"
      and np: "''__proto__'' \<notin> fst ` set ps"
      and m: "\<forall>(k, c) \<in> set (co_properties C).
                \<forall>t. cp_objectType c = Some t \<longrightarrow> \<not> endsWith t ''?''"
  shows "normalizeObjectSchema flag (ObjectSchema (objectSchemaOfCanonical C)) = Inr C"
proof -
  from n obtain props where
    nm: "os_name s \<noteq> []" and
    pkc: "\<not> (\<exists>k. os_primaryKey s = Some k \<and> k \<noteq> [] \<and> k \<notin> fst ` set ps)" and
    ae: "\<not> (os_asymmetric s = Some True \<and> os_embedded s = Some True)" and
    nps: "normalizePropertySchemas (os_name s) ps (os_primaryKey s) = Inr props" and
    C: "C = \<lparr> co_name = os_name s, co_primaryKey = os_primaryKey s,
              co_asymmetric = toBoolean (os_asymmetric s),
              co_embedded = toBoolean (os_embedded s),
              co_properties = props, co_ctor = None \<rparr>"
    unfolding normalizeObjectSchema_mapping [OF po]
    by (auto split: if_splits sum.splits)
  note l = nps [unfolded normalizePropertySchemas_def]
  have keys: "fst ` set props = fst ` set ps"
    using loop_keys [OF l] np by auto
  have dist: "distinct (map fst props)"
    using l by (rule loop_distinct) simp
  have ord: "enumerationOrder (map fst props)"
    using l by (rule loop_enumerationOrder) (simp add: enumerationOrder_def)
  have fp: "\<forall>(k, c) \<in> set props.
             normalizePropertySchema
               \<lparr> objectName = os_name s, propertyName = k,
                 propertySchema = Explicit (propertySchemaOfCanonical c),
                 isPrimaryKey = Some (os_primaryKey s = Some k) \<rparr> = Inr c"
  proof (clarify)
    fix k c assume kc: "(k, c) \<in> set props"
    from normalizePropertySchemas_origin [OF nps kc] obtain p where
      "normalizePropertySchema
          \<lparr> objectName = os_name s, propertyName = k, propertySchema = p,
            isPrimaryKey = Some (os_primaryKey s = Some k) \<rparr> = Inr c"
      by blast
    moreover from m kc C have "\<forall>t. cp_objectType c = Some t \<longrightarrow> \<not> endsWith t ''?''"
      by auto
    ultimately show "normalizePropertySchema
               \<lparr> objectName = os_name s, propertyName = k,
                 propertySchema = Explicit (propertySchemaOfCanonical c),
                 isPrimaryKey = Some (os_primaryKey s = Some k) \<rparr> = Inr c"
      by (rule property_canonical_fixpoint)
  qed
  let ?raw = "map (\<lambda>(k, c). (k, Explicit (propertySchemaOfCanonical c))) props"
  have again: "normalizePropertySchemas (os_name s) ?raw (os_primaryKey s) = Inr props"
    unfolding normalizePropertySchemas_def
    using loop_fixpoints [OF fp, of "[]"] dist ord np keys by simp
  have rawkeys: "fst ` set ?raw = fst ` set props" by force
  have o: "os_properties (objectSchemaOfCanonical C) = PropertiesObject ?raw"
    "os_name (objectSchemaOfCanonical C) = os_name s"
    "os_primaryKey (objectSchemaOfCanonical C) = os_primaryKey s"
    "os_asymmetric (objectSchemaOfCanonical C) = Some (toBoolean (os_asymmetric s))"
    "os_embedded (objectSchemaOfCanonical C) = Some (toBoolean (os_embedded s))"
    by (simp_all add: objectSchemaOfCanonical_def C)
  show ?thesis
    unfolding normalizeObjectSchema_mapping [OF o(1)] o(2-5) rawkeys keys
    using nm pkc ae again C by (auto simp: toBoolean_def)
qed

end
